theory Spec2Isabelle
  imports Main "HOL-Library.Word"
begin

section \<open>BGP Link-State: NLRI decoders, attribute display and the IS-IS identifier formatter\<close>

text \<open>
  The development follows \<^verbatim>\<open>bgpd/bgp_bgpls_nlri.c\<close> (the node, link and prefix NLRI
  decoders and the display of a link-state attribute) and \<^verbatim>\<open>lib/isis.c\<close>
  (\<^verbatim>\<open>lib_isis_format_id\<close>). A byte is an 8-bit word; an integer that the code assembles
  from bytes (\<^verbatim>\<open>uint16_t\<close>, \<^verbatim>\<open>uint64_t\<close>, \<^verbatim>\<open>size_t\<close>) is a natural number, and where the
  code stores a sum back into a \<^verbatim>\<open>uint16_t\<close> the reduction modulo \<open>65536\<close> is written out.
\<close>

subsection \<open>Bytes, big-endian integers, failing reads\<close>

type_synonym u8 = "8 word"

definition be_nat :: "u8 list \<Rightarrow> nat" where
  "be_nat bs = foldl (\<lambda>a b. 256 * a + unat b) 0 bs"

datatype error = TruncatedInput

definition and_then :: "'e + 'a \<Rightarrow> ('a \<Rightarrow> 'e + 'b) \<Rightarrow> 'e + 'b" where
  "and_then m f = (case m of Inl e \<Rightarrow> Inl e | Inr v \<Rightarrow> f v)"

subsection \<open>The stream reader\<close>

text \<open>
  Modelled from the spec: \<^verbatim>\<open>lib/stream.c\<close> (\<^verbatim>\<open>stream_getc\<close>, \<^verbatim>\<open>stream_getw\<close>,
  \<^verbatim>\<open>stream_getq\<close>, \<^verbatim>\<open>stream_get\<close>, \<^verbatim>\<open>stream_get_ipv4\<close>, \<^verbatim>\<open>stream_get_getp\<close>) is not among
  the source files. Section 4.1 of the specification (Byte Cursor) describes it: a
  bounds-checked reader over an immutable byte buffer with an explicit read position; every
  read advances the position by the width it consumed and fails with \<open>TruncatedInput\<close>
  when the requested width exceeds the remaining buffer; multi-byte integers are
  big-endian (section 6). The decoders below never test the outcome of a read: a failed read
  ends the decode there, and it is the reader's failure, not a status that the decoder
  returns.
\<close>

record stream =
  data :: "u8 list"
  getp :: nat

definition stream_get_getp :: "stream \<Rightarrow> nat" where
  "stream_get_getp s = getp s"

definition stream_get :: "nat \<Rightarrow> stream \<Rightarrow> error + (u8 list \<times> stream)" where
  "stream_get n s =
     (if getp s + n \<le> length (data s)
      then Inr (take n (drop (getp s) (data s)), s\<lparr>getp := getp s + n\<rparr>)
      else Inl TruncatedInput)"

definition stream_getc :: "stream \<Rightarrow> error + (u8 \<times> stream)" where
  "stream_getc s =
     (if getp s + 1 \<le> length (data s)
      then Inr (data s ! getp s, s\<lparr>getp := getp s + 1\<rparr>)
      else Inl TruncatedInput)"

definition stream_getw :: "stream \<Rightarrow> error + (nat \<times> stream)" where
  "stream_getw s = and_then (stream_get 2 s) (\<lambda>(bs, s'). Inr (be_nat bs, s'))"

definition stream_getq :: "stream \<Rightarrow> error + (nat \<times> stream)" where
  "stream_getq s = and_then (stream_get 8 s) (\<lambda>(bs, s'). Inr (be_nat bs, s'))"

text \<open>An IPv4 address stays in network byte order: it is kept as its four bytes.\<close>

definition stream_get_ipv4 :: "stream \<Rightarrow> error + (u8 list \<times> stream)" where
  "stream_get_ipv4 s = stream_get 4 s"

subsection \<open>Code points and lengths\<close>

text \<open>
  Modelled from the spec: the header \<^verbatim>\<open>bgpd/bgp_ls.h\<close> that defines the code points and
  the fixed lengths is not among the source files. The values are those of section 6 of
  the specification and of the tables in the comments of \<^verbatim>\<open>bgp_bgpls_nlri.c\<close>: 256 and
  257 for the node descriptors, 258 to 263 for the link descriptors, 512 to 515 for the
  descriptor sub-TLVs with lengths 4, 4, 4 and 4/6/7/8, 16 bytes for an IPv6 address. The
  specification names RFC 7752 as the bit-exact wire format without giving the numbers of
  the two prefix descriptors; they are the RFC's: 264 for OSPF Route Type and 265 for IP
  Reachability Information.
\<close>

definition BGP_NLRI_TLV_LOCAL_NODE_DESCRIPTORS :: nat where
  "BGP_NLRI_TLV_LOCAL_NODE_DESCRIPTORS = 256"
definition BGP_NLRI_TLV_REMOTE_NODE_DESCRIPTORS :: nat where
  "BGP_NLRI_TLV_REMOTE_NODE_DESCRIPTORS = 257"
definition BGP_NLRI_TLV_LINK_LOCAL_REMOTE_IDENTIFIERS :: nat where
  "BGP_NLRI_TLV_LINK_LOCAL_REMOTE_IDENTIFIERS = 258"
definition BGP_NLRI_TLV_IPV4_INTERFACE_ADDRESS :: nat where
  "BGP_NLRI_TLV_IPV4_INTERFACE_ADDRESS = 259"
definition BGP_NLRI_TLV_IPV4_NEIGHBOR_ADDRESS :: nat where
  "BGP_NLRI_TLV_IPV4_NEIGHBOR_ADDRESS = 260"
definition BGP_NLRI_TLV_IPV6_INTERFACE_ADDRESS :: nat where
  "BGP_NLRI_TLV_IPV6_INTERFACE_ADDRESS = 261"
definition BGP_NLRI_TLV_IPV6_NEIGHBOR_ADDRESS :: nat where
  "BGP_NLRI_TLV_IPV6_NEIGHBOR_ADDRESS = 262"
definition BGP_NLRI_TLV_MULTI_TOPOLOGY_ID :: nat where
  "BGP_NLRI_TLV_MULTI_TOPOLOGY_ID = 263"
definition BGP_NLRI_TLV_OSPF_ROUTE_TYPE :: nat where
  "BGP_NLRI_TLV_OSPF_ROUTE_TYPE = 264"
definition BGP_NLRI_TLV_IP_REACHABILITY_INFORMATION :: nat where
  "BGP_NLRI_TLV_IP_REACHABILITY_INFORMATION = 265"

definition BGP_NLRI_TLV_AUTONOMOUS_SYSTEM :: nat where
  "BGP_NLRI_TLV_AUTONOMOUS_SYSTEM = 512"
definition BGP_NLRI_TLV_BGP_LS_IDENTIFIER :: nat where
  "BGP_NLRI_TLV_BGP_LS_IDENTIFIER = 513"
definition BGP_NLRI_TLV_AREA_ID :: nat where
  "BGP_NLRI_TLV_AREA_ID = 514"
definition BGP_NLRI_TLV_IGP_ROUTER_ID :: nat where
  "BGP_NLRI_TLV_IGP_ROUTER_ID = 515"

definition BGP_NLRI_TLV_LEN_AUTONOMOUS_SYSTEM :: nat where
  "BGP_NLRI_TLV_LEN_AUTONOMOUS_SYSTEM = 4"
definition BGP_NLRI_TLV_LEN_BGP_LS_IDENTIFIER :: nat where
  "BGP_NLRI_TLV_LEN_BGP_LS_IDENTIFIER = 4"
definition BGP_NLRI_TLV_LEN_AREA_ID :: nat where
  "BGP_NLRI_TLV_LEN_AREA_ID = 4"
definition BGP_NLRI_IS_IS_NON_PSEUDONODE :: nat where
  "BGP_NLRI_IS_IS_NON_PSEUDONODE = 6"
definition BGP_NLRI_IS_IS_PSEUDONODE :: nat where
  "BGP_NLRI_IS_IS_PSEUDONODE = 7"
definition BGP_NLRI_OSPF_NON_PSEUDONODE :: nat where
  "BGP_NLRI_OSPF_NON_PSEUDONODE = 4"
definition BGP_NLRI_OSPF_PSEUDONODE :: nat where
  "BGP_NLRI_OSPF_PSEUDONODE = 8"
definition BGP_NLRI_TLV_LEN_IPV6_INTERFACE_ADDRESS :: nat where
  "BGP_NLRI_TLV_LEN_IPV6_INTERFACE_ADDRESS = 16"
definition BGP_NLRI_TLV_LEN_IPV6_NEIGHBOR_ADDRESS :: nat where
  "BGP_NLRI_TLV_LEN_IPV6_NEIGHBOR_ADDRESS = 16"

lemmas nlri_code_points =
  BGP_NLRI_TLV_LOCAL_NODE_DESCRIPTORS_def BGP_NLRI_TLV_REMOTE_NODE_DESCRIPTORS_def
  BGP_NLRI_TLV_LINK_LOCAL_REMOTE_IDENTIFIERS_def BGP_NLRI_TLV_IPV4_INTERFACE_ADDRESS_def
  BGP_NLRI_TLV_IPV4_NEIGHBOR_ADDRESS_def BGP_NLRI_TLV_IPV6_INTERFACE_ADDRESS_def
  BGP_NLRI_TLV_IPV6_NEIGHBOR_ADDRESS_def BGP_NLRI_TLV_MULTI_TOPOLOGY_ID_def
  BGP_NLRI_TLV_OSPF_ROUTE_TYPE_def BGP_NLRI_TLV_IP_REACHABILITY_INFORMATION_def
  BGP_NLRI_TLV_AUTONOMOUS_SYSTEM_def BGP_NLRI_TLV_BGP_LS_IDENTIFIER_def
  BGP_NLRI_TLV_AREA_ID_def BGP_NLRI_TLV_IGP_ROUTER_ID_def

lemmas nlri_lengths =
  BGP_NLRI_TLV_LEN_AUTONOMOUS_SYSTEM_def BGP_NLRI_TLV_LEN_BGP_LS_IDENTIFIER_def
  BGP_NLRI_TLV_LEN_AREA_ID_def BGP_NLRI_IS_IS_NON_PSEUDONODE_def
  BGP_NLRI_IS_IS_PSEUDONODE_def BGP_NLRI_OSPF_NON_PSEUDONODE_def
  BGP_NLRI_OSPF_PSEUDONODE_def BGP_NLRI_TLV_LEN_IPV6_INTERFACE_ADDRESS_def
  BGP_NLRI_TLV_LEN_IPV6_NEIGHBOR_ADDRESS_def

subsection \<open>The decoded NLRI and the parser's state\<close>

text \<open>
  The fields of \<^verbatim>\<open>attr->mp_bgpls_nlri\<close> that the three decoders write, the host name of
  the peer that the log lines print, and the lines logged with \<^verbatim>\<open>zlog_info\<close> (format,
  host, number). A field filled by \<^verbatim>\<open>stream_get\<close> is the byte array the bytes are copied
  into; an IPv4 address is its four bytes.
\<close>

record bgp_attr_parser_args =
  peer_host :: string
  ext_hdr_proto_id :: u8
  ext_hdr_nlri_identifier :: nat
  local_node_value :: "u8 list"
  remote_node_value :: "u8 list"
  llri_local :: nat
  llri_remote :: nat
  i4ia_value :: "u8 list"
  i4na_value :: "u8 list"
  i6ia_value :: "u8 list"
  mid_value :: "nat list"
  ort_value :: u8
  ipreach_prefix :: u8
  ipreach_value :: "u8 list"
  zlog :: "(string \<times> string \<times> nat) list"

datatype bgp_attr_parse_ret = BGP_ATTR_PARSE_PROCEED | BGP_ATTR_PARSE_ERROR_NOTIFYPLS

definition zlog_info :: "string \<Rightarrow> nat \<Rightarrow> bgp_attr_parser_args \<Rightarrow> bgp_attr_parser_args" where
  "zlog_info fmt n a = a\<lparr>zlog := zlog a @ [(fmt, peer_host a, n)]\<rparr>"

text \<open>\<^verbatim>\<open>stream_get(dst, s, n)\<close> copies \<open>n\<close> bytes over the start of \<open>dst\<close>.\<close>

definition copy_into :: "u8 list \<Rightarrow> u8 list \<Rightarrow> u8 list" where
  "copy_into dst bs = bs @ drop (length bs) dst"

text \<open>\<^verbatim>\<open>value[i] = w\<close> on an array held as a list; a slot not yet there is created.\<close>

definition store_at :: "nat list \<Rightarrow> nat \<Rightarrow> nat \<Rightarrow> nat list" where
  "store_at xs i w = take i (xs @ replicate (i - length xs) 0) @ [w] @ drop (Suc i) xs"

datatype node_sel = Local_node | Remote_node

definition put_node_value :: "node_sel \<Rightarrow> u8 list \<Rightarrow> bgp_attr_parser_args \<Rightarrow> bgp_attr_parser_args" where
  "put_node_value n bs a =
     (case n of
        Local_node \<Rightarrow> a\<lparr>local_node_value := copy_into (local_node_value a) bs\<rparr>
      | Remote_node \<Rightarrow> a\<lparr>remote_node_value := copy_into (remote_node_value a) bs\<rparr>)"

subsection \<open>The descriptor sub-TLVs\<close>

text \<open>
  One pass of the body of the \<^verbatim>\<open>while (stream_get_getp(s) < nlri_node_endp)\<close> loops: the
  sub-TLV header, then the \<^verbatim>\<open>switch (node_type)\<close>. The four copies of this switch in the
  source differ in one place only: under Remote Node Descriptors the IGP Router-ID is
  copied to \<^verbatim>\<open>remote_node->value\<close>; \<open>rid\<close> is that destination. The Autonomous System,
  the BGP-LS Identifier and the Area-ID are copied to \<^verbatim>\<open>local_node->value\<close> in all four.
  The log lines print \<^verbatim>\<open>length\<close>, the length of the enclosing TLV. An unknown sub-TLV and
  an IGP Router-ID of another length are logged and their value bytes are not skipped.
\<close>

definition node_descriptor_sub_tlv ::
  "node_sel \<Rightarrow> nat \<Rightarrow> bgp_attr_parser_args \<Rightarrow> stream \<Rightarrow> error + (bgp_attr_parser_args \<times> stream)" where
  "node_descriptor_sub_tlv rid tlv_length a s =
     and_then (stream_getw s) (\<lambda>(node_type, s).
     and_then (stream_getw s) (\<lambda>(node_length, s).
       if node_type = BGP_NLRI_TLV_AUTONOMOUS_SYSTEM then
         and_then (stream_get BGP_NLRI_TLV_LEN_AUTONOMOUS_SYSTEM s)
           (\<lambda>(bs, s). Inr (put_node_value Local_node bs a, s))
       else if node_type = BGP_NLRI_TLV_BGP_LS_IDENTIFIER then
         and_then (stream_get BGP_NLRI_TLV_LEN_BGP_LS_IDENTIFIER s)
           (\<lambda>(bs, s). Inr (put_node_value Local_node bs a, s))
       else if node_type = BGP_NLRI_TLV_AREA_ID then
         and_then (stream_get BGP_NLRI_TLV_LEN_AREA_ID s)
           (\<lambda>(bs, s). Inr (put_node_value Local_node bs a, s))
       else if node_type = BGP_NLRI_TLV_IGP_ROUTER_ID then
         (if node_length = BGP_NLRI_IS_IS_NON_PSEUDONODE then
            and_then (stream_get BGP_NLRI_IS_IS_NON_PSEUDONODE s)
              (\<lambda>(bs, s). Inr (put_node_value rid bs a, s))
          else if node_length = BGP_NLRI_IS_IS_PSEUDONODE then
            and_then (stream_get BGP_NLRI_IS_IS_PSEUDONODE s)
              (\<lambda>(bs, s). Inr (put_node_value rid bs a, s))
          else if node_length = BGP_NLRI_OSPF_NON_PSEUDONODE then
            and_then (stream_get BGP_NLRI_OSPF_NON_PSEUDONODE s)
              (\<lambda>(bs, s). Inr (put_node_value rid bs a, s))
          else if node_length = BGP_NLRI_OSPF_PSEUDONODE then
            and_then (stream_get BGP_NLRI_OSPF_PSEUDONODE s)
              (\<lambda>(bs, s). Inr (put_node_value rid bs a, s))
          else Inr (zlog_info ''%s sent invalid IGP Router-ID, %lu'' tlv_length a, s))
       else Inr (zlog_info ''%s sent invalid Node Descriptor, %lu'' tlv_length a, s)))"

lemma and_then_Inr:
  "and_then m f = Inr r \<longleftrightarrow> (\<exists>v. m = Inr v \<and> f v = Inr r)"
  by (cases m) (simp_all add: and_then_def)

lemma and_then_Inl:
  "and_then m f = Inl e \<longleftrightarrow> m = Inl e \<or> (\<exists>v. m = Inr v \<and> f v = Inl e)"
  by (cases m) (simp_all add: and_then_def)

lemma stream_get_getp_data:
  "stream_get n s = Inr (bs, s') \<Longrightarrow> getp s' = getp s + n \<and> data s' = data s"
  by (auto simp: stream_get_def split: if_splits)

lemma stream_getw_getp_data:
  "stream_getw s = Inr (w, s') \<Longrightarrow> getp s' = getp s + 2 \<and> data s' = data s"
  by (auto simp: stream_getw_def and_then_Inr dest: stream_get_getp_data)

lemma node_descriptor_sub_tlv_advances:
  assumes "node_descriptor_sub_tlv rid len a s = Inr (a', s')"
  shows "getp s + 4 \<le> getp s' \<and> data s' = data s"
  using assms
  by (auto simp: node_descriptor_sub_tlv_def and_then_Inr
           split: if_splits dest!: stream_getw_getp_data stream_get_getp_data)

text \<open>
  The loop \<^verbatim>\<open>while (stream_get_getp(s) < nlri_node_endp)\<close> of the link and prefix
  decoders. Each pass reads at least the four bytes of a sub-TLV header, or fails.
\<close>

function node_descriptors ::
  "node_sel \<Rightarrow> nat \<Rightarrow> nat \<Rightarrow> bgp_attr_parser_args \<Rightarrow> stream \<Rightarrow> error + (bgp_attr_parser_args \<times> stream)" where
  "node_descriptors rid tlv_length nlri_node_endp a s =
     (if stream_get_getp s < nlri_node_endp then
        (case node_descriptor_sub_tlv rid tlv_length a s of
           Inl e \<Rightarrow> Inl e
         | Inr (a', s') \<Rightarrow> node_descriptors rid tlv_length nlri_node_endp a' s')
      else Inr (a, s))"
  by pat_completeness auto
termination
proof (relation "measure (\<lambda>(rid, tlv_length, nlri_node_endp, a, s). nlri_node_endp - getp s)")
  show "wf (measure (\<lambda>(rid, tlv_length, nlri_node_endp, a, s). nlri_node_endp - getp s))"
    by simp
next
  fix rid :: node_sel and tlv_length nlri_node_endp :: nat
    and a a' :: bgp_attr_parser_args and s s' :: stream and x
  assume lt: "stream_get_getp s < nlri_node_endp"
    and ok: "node_descriptor_sub_tlv rid tlv_length a s = Inr x" and x: "(a', s') = x"
  from ok x have "getp s + 4 \<le> getp s'"
    using node_descriptor_sub_tlv_advances [of rid tlv_length a s a' s'] by simp
  with lt show "((rid, tlv_length, nlri_node_endp, a', s'), (rid, tlv_length, nlri_node_endp, a, s))
      \<in> measure (\<lambda>(rid, tlv_length, nlri_node_endp, a, s). nlri_node_endp - getp s)"
    by (simp add: stream_get_getp_def)
qed

declare node_descriptors.simps [simp del]

subsection \<open>The node NLRI decoder\<close>

text \<open>
  \<^verbatim>\<open>bgp_mp_node_decode\<close>: the protocol header, the top-level TLV header, one log line when
  the type is not Local Node Descriptors, then the descriptor loop. The loop body ends with
  an unconditional \<^verbatim>\<open>break\<close> after the \<^verbatim>\<open>switch\<close>, so the body runs once at most.
\<close>

definition bgp_mp_node_decode ::
  "bgp_attr_parser_args \<Rightarrow> stream \<Rightarrow> error + (bgp_attr_parse_ret \<times> bgp_attr_parser_args \<times> stream)" where
  "bgp_mp_node_decode a s =
     and_then (stream_getc s) (\<lambda>(c, s).
     and_then (stream_getq s) (\<lambda>(q, s).
     and_then (stream_getw s) (\<lambda>(tlv_type, s).
     and_then (stream_getw s) (\<lambda>(tlv_length, s).
       let a = a\<lparr>ext_hdr_proto_id := c, ext_hdr_nlri_identifier := q\<rparr>;
           a = (if tlv_type \<noteq> BGP_NLRI_TLV_LOCAL_NODE_DESCRIPTORS
                then zlog_info ''%s sent invalid Node Descriptor, %lu'' tlv_length a else a);
           nlri_node_endp = stream_get_getp s + tlv_length
       in if stream_get_getp s < nlri_node_endp then
            and_then (node_descriptor_sub_tlv Local_node tlv_length a s)
              (\<lambda>(a, s). Inr (BGP_ATTR_PARSE_PROCEED, a, s))
          else Inr (BGP_ATTR_PARSE_PROCEED, a, s)))))"

subsection \<open>The link NLRI decoder\<close>

text \<open>
  The loop \<^verbatim>\<open>for (i = 0; i <= (n - 1); i++) mid->value[i] = stream_getw(s)\<close> with
  \<^verbatim>\<open>int\<close> counters.
\<close>

function multi_topology_ids ::
  "int \<Rightarrow> int \<Rightarrow> nat list \<Rightarrow> stream \<Rightarrow> error + (nat list \<times> stream)" where
  "multi_topology_ids i n vs s =
     (if i \<le> n - 1 then
        (case stream_getw s of
           Inl e \<Rightarrow> Inl e
         | Inr (w, s') \<Rightarrow> multi_topology_ids (i + 1) n (store_at vs (nat i) w) s')
      else Inr (vs, s))"
  by pat_completeness auto
termination
  by (relation "measure (\<lambda>(i, n, vs, s). nat (n - i))") auto

declare multi_topology_ids.simps [simp del]

text \<open>
  \<^verbatim>\<open>bgp_mp_link_decode\<close> reads one top-level TLV. For the types 258 to 263 it reads a
  second header (\<^verbatim>\<open>node_type\<close>, \<^verbatim>\<open>node_length\<close>) before the value; only the
  Multi-Topology case uses \<^verbatim>\<open>node_length\<close>. The IPv6 neighbor address is copied to
  \<^verbatim>\<open>i6ia.value\<close>, as the IPv6 interface address is. Every \<^verbatim>\<open>return\<close> of the function
  returns \<^verbatim>\<open>BGP_ATTR_PARSE_PROCEED\<close>.
\<close>

definition bgp_mp_link_decode ::
  "bgp_attr_parser_args \<Rightarrow> stream \<Rightarrow> error + (bgp_attr_parse_ret \<times> bgp_attr_parser_args \<times> stream)" where
  "bgp_mp_link_decode a s =
     and_then (stream_getc s) (\<lambda>(c, s).
     and_then (stream_getq s) (\<lambda>(q, s).
     and_then (stream_getw s) (\<lambda>(tlv_type, s).
     and_then (stream_getw s) (\<lambda>(tlv_length, s).
       let a = a\<lparr>ext_hdr_proto_id := c, ext_hdr_nlri_identifier := q\<rparr>;
           nlri_node_endp = stream_get_getp s + tlv_length
       in and_then
         (if tlv_type = BGP_NLRI_TLV_LOCAL_NODE_DESCRIPTORS then
            node_descriptors Local_node tlv_length nlri_node_endp a s
          else if tlv_type = BGP_NLRI_TLV_REMOTE_NODE_DESCRIPTORS then
            node_descriptors Remote_node tlv_length nlri_node_endp a s
          else if tlv_type = BGP_NLRI_TLV_LINK_LOCAL_REMOTE_IDENTIFIERS then
            and_then (stream_getw s) (\<lambda>(node_type, s).
            and_then (stream_getw s) (\<lambda>(node_length, s).
            and_then (stream_getw s) (\<lambda>(l, s).
            and_then (stream_getw s) (\<lambda>(r, s).
              Inr (a\<lparr>llri_local := l, llri_remote := r\<rparr>, s)))))
          else if tlv_type = BGP_NLRI_TLV_IPV4_INTERFACE_ADDRESS then
            and_then (stream_getw s) (\<lambda>(node_type, s).
            and_then (stream_getw s) (\<lambda>(node_length, s).
            and_then (stream_get_ipv4 s) (\<lambda>(bs, s).
              Inr (a\<lparr>i4ia_value := bs\<rparr>, s))))
          else if tlv_type = BGP_NLRI_TLV_IPV4_NEIGHBOR_ADDRESS then
            and_then (stream_getw s) (\<lambda>(node_type, s).
            and_then (stream_getw s) (\<lambda>(node_length, s).
            and_then (stream_get_ipv4 s) (\<lambda>(bs, s).
              Inr (a\<lparr>i4na_value := bs\<rparr>, s))))
          else if tlv_type = BGP_NLRI_TLV_IPV6_INTERFACE_ADDRESS then
            and_then (stream_getw s) (\<lambda>(node_type, s).
            and_then (stream_getw s) (\<lambda>(node_length, s).
            and_then (stream_get BGP_NLRI_TLV_LEN_IPV6_INTERFACE_ADDRESS s) (\<lambda>(bs, s).
              Inr (a\<lparr>i6ia_value := copy_into (i6ia_value a) bs\<rparr>, s))))
          else if tlv_type = BGP_NLRI_TLV_IPV6_NEIGHBOR_ADDRESS then
            and_then (stream_getw s) (\<lambda>(node_type, s).
            and_then (stream_getw s) (\<lambda>(node_length, s).
            and_then (stream_get BGP_NLRI_TLV_LEN_IPV6_NEIGHBOR_ADDRESS s) (\<lambda>(bs, s).
              Inr (a\<lparr>i6ia_value := copy_into (i6ia_value a) bs\<rparr>, s))))
          else if tlv_type = BGP_NLRI_TLV_MULTI_TOPOLOGY_ID then
            and_then (stream_getw s) (\<lambda>(node_type, s).
            and_then (stream_getw s) (\<lambda>(node_length, s).
            and_then (multi_topology_ids 0 (int node_length div 2) (mid_value a) s) (\<lambda>(vs, s).
              Inr (a\<lparr>mid_value := vs\<rparr>, s))))
          else Inr (a, s))
         (\<lambda>(a, s). Inr (BGP_ATTR_PARSE_PROCEED, a, s))))))"

subsection \<open>The prefix NLRI decoder\<close>

text \<open>
  \<^verbatim>\<open>bgp_mp_prefix_decode\<close>: as the link decoder for Local Node Descriptors and
  Multi-Topology ID; one byte for the OSPF route type; for IP Reachability one byte
  \<^verbatim>\<open>prefix\<close> and then \<^verbatim>\<open>prefix\<close> bytes. Any other type is logged and the function returns
  \<^verbatim>\<open>BGP_ATTR_PARSE_ERROR_NOTIFYPLS\<close>.
\<close>

definition bgp_mp_prefix_decode ::
  "bgp_attr_parser_args \<Rightarrow> stream \<Rightarrow> error + (bgp_attr_parse_ret \<times> bgp_attr_parser_args \<times> stream)" where
  "bgp_mp_prefix_decode a s =
     and_then (stream_getc s) (\<lambda>(c, s).
     and_then (stream_getq s) (\<lambda>(q, s).
     and_then (stream_getw s) (\<lambda>(tlv_type, s).
     and_then (stream_getw s) (\<lambda>(tlv_length, s).
       let a = a\<lparr>ext_hdr_proto_id := c, ext_hdr_nlri_identifier := q\<rparr>
       in
         if tlv_type = BGP_NLRI_TLV_LOCAL_NODE_DESCRIPTORS then
           and_then
             (node_descriptors Local_node tlv_length (stream_get_getp s + tlv_length) a s)
             (\<lambda>(a, s). Inr (BGP_ATTR_PARSE_PROCEED, a, s))
         else if tlv_type = BGP_NLRI_TLV_MULTI_TOPOLOGY_ID then
           and_then (stream_getw s) (\<lambda>(node_type, s).
           and_then (stream_getw s) (\<lambda>(node_length, s).
           and_then (multi_topology_ids 0 (int node_length div 2) (mid_value a) s) (\<lambda>(vs, s).
             Inr (BGP_ATTR_PARSE_PROCEED, a\<lparr>mid_value := vs\<rparr>, s))))
         else if tlv_type = BGP_NLRI_TLV_OSPF_ROUTE_TYPE then
           and_then (stream_getw s) (\<lambda>(node_type, s).
           and_then (stream_getw s) (\<lambda>(node_length, s).
           and_then (stream_getc s) (\<lambda>(b, s).
             Inr (BGP_ATTR_PARSE_PROCEED, a\<lparr>ort_value := b\<rparr>, s))))
         else if tlv_type = BGP_NLRI_TLV_IP_REACHABILITY_INFORMATION then
           and_then (stream_getw s) (\<lambda>(node_type, s).
           and_then (stream_getw s) (\<lambda>(node_length, s).
           and_then (stream_getc s) (\<lambda>(p, s).
           and_then (stream_get (unat p) s) (\<lambda>(bs, s).
             Inr (BGP_ATTR_PARSE_PROCEED,
                  a\<lparr>ipreach_prefix := p, ipreach_value := copy_into (ipreach_value a) bs\<rparr>, s)))))
         else
           Inr (BGP_ATTR_PARSE_ERROR_NOTIFYPLS,
                zlog_info ''%s sent invalid Link State IS-IS TLV, %lu'' tlv_length a, s)))))"

subsection \<open>Display of a link-state attribute: memory, host and output\<close>

text \<open>
  The display functions do not read a stream: they overlay structures on the memory that
  holds the attribute and follow pointers through it. The memory is the list of the bytes
  of that object, \<^verbatim>\<open>&te->header\<close> being offset 0, and a TLV header pointer \<^verbatim>\<open>tlvh\<close> is an
  offset. A read outside the object is undefined in C; in the model it ends the function
  with \<open>Read_outside\<close> and the offset of the byte.

  The source depends on the machine in two places, both made parameters: fields read
  without \<^verbatim>\<open>ntohs\<close> have the host's byte order, and \<^verbatim>\<open>sizeof(&top->value[0])\<close> is the size
  of a pointer.
\<close>

datatype fault = Read_outside nat

record host =
  little_endian :: bool
  sizeof_pointer :: nat

definition peek :: "u8 list \<Rightarrow> nat \<Rightarrow> fault + u8" where
  "peek mem i = (if i < length mem then Inr (mem ! i) else Inl (Read_outside i))"

text \<open>A \<^verbatim>\<open>uint16_t\<close> field at offset \<open>i\<close>, as the host reads it, and \<^verbatim>\<open>ntohs\<close>.\<close>

definition host16 :: "host \<Rightarrow> u8 list \<Rightarrow> nat \<Rightarrow> fault + nat" where
  "host16 h mem i =
     and_then (peek mem i) (\<lambda>b0.
     and_then (peek mem (i + 1)) (\<lambda>b1.
       Inr (if little_endian h then unat b0 + 256 * unat b1 else 256 * unat b0 + unat b1)))"

definition ntohs :: "host \<Rightarrow> nat \<Rightarrow> nat" where
  "ntohs h x = (if little_endian h then 256 * (x mod 256) + x div 256 mod 256 else x)"

text \<open>
  Modelled from the spec: \<^verbatim>\<open>bgpd/bgp_ls.h\<close>, which declares
  \<^verbatim>\<open>struct te_tlv_nlri_header\<close> and the macros \<^verbatim>\<open>BGP_TLV_HDR_SIZE\<close>, \<^verbatim>\<open>BGP_TLV_SIZE\<close> and
  \<^verbatim>\<open>BGP_TLV_HDR_NEXT\<close>, is not among the source files. By sections 4.2 and 6 of the
  specification a TLV header is the pair of the 16-bit type and the 16-bit length, 4 bytes,
  the value following immediately; by section 4.7 the size of a TLV is that of its header
  plus its declared length, and the next TLV starts where this one ends. The source reads
  the two fields as \<^verbatim>\<open>nlri_type\<close> and \<^verbatim>\<open>nlri_length\<close>.
\<close>

definition nlri_type :: "host \<Rightarrow> u8 list \<Rightarrow> nat \<Rightarrow> fault + nat" where
  "nlri_type h mem tlvh = host16 h mem tlvh"

definition nlri_length :: "host \<Rightarrow> u8 list \<Rightarrow> nat \<Rightarrow> fault + nat" where
  "nlri_length h mem tlvh = host16 h mem (tlvh + 2)"

definition BGP_TLV_HDR_SIZE :: nat where
  "BGP_TLV_HDR_SIZE = 4"

definition BGP_TLV_SIZE :: "host \<Rightarrow> u8 list \<Rightarrow> nat \<Rightarrow> fault + nat" where
  "BGP_TLV_SIZE h mem tlvh =
     and_then (nlri_length h mem tlvh) (\<lambda>l. Inr (BGP_TLV_HDR_SIZE + ntohs h l))"

definition BGP_TLV_HDR_NEXT :: "host \<Rightarrow> u8 list \<Rightarrow> nat \<Rightarrow> fault + nat" where
  "BGP_TLV_HDR_NEXT h mem tlvh =
     and_then (BGP_TLV_SIZE h mem tlvh) (\<lambda>n. Inr (tlvh + n))"

text \<open>
  Modelled from the spec: the code points of the attribute TLVs are defined in
  \<^verbatim>\<open>bgpd/bgp_ls.h\<close>, which is not among the source files. The table in the comment before
  \<^verbatim>\<open>bgp_mp_prefix_decode\<close> gives 1152 to 1157; for the others section 6 of the specification
  refers to RFC 7752, section 3.3, whose numbers these are. The two lengths of an OSPF
  forwarding address are those of an IPv4 and of an IPv6 address.
\<close>

definition BGP_NLRI_TLV_NODE_FLAG_BITS :: nat where
  "BGP_NLRI_TLV_NODE_FLAG_BITS = 1024"
definition BGP_NLRI_TLV_OPAQUE_NODE_PROPERTIES :: nat where
  "BGP_NLRI_TLV_OPAQUE_NODE_PROPERTIES = 1025"
definition BGP_NLRI_TLV_NODE_NAME :: nat where
  "BGP_NLRI_TLV_NODE_NAME = 1026"
definition BGP_NLRI_TLV_IS_IS_AREA_IDENTIFIER :: nat where
  "BGP_NLRI_TLV_IS_IS_AREA_IDENTIFIER = 1027"
definition BGP_NLRI_TLV_IPV4_ROUTER_ID_OF_LOCAL_NODE :: nat where
  "BGP_NLRI_TLV_IPV4_ROUTER_ID_OF_LOCAL_NODE = 1028"
definition BGP_NLRI_TLV_IPV6_ROUTER_ID_OF_LOCAL_NODE :: nat where
  "BGP_NLRI_TLV_IPV6_ROUTER_ID_OF_LOCAL_NODE = 1029"
definition BGP_NLRI_TLV_IPV4_ROUTER_ID_OF_REMOTE_NODE :: nat where
  "BGP_NLRI_TLV_IPV4_ROUTER_ID_OF_REMOTE_NODE = 1030"
definition BGP_NLRI_TLV_IPV6_ROUTER_ID_OF_REMOTE_NODE :: nat where
  "BGP_NLRI_TLV_IPV6_ROUTER_ID_OF_REMOTE_NODE = 1031"
definition BGP_NLRI_TLV_ADMINISTRATIVE_GROUP_COLOR :: nat where
  "BGP_NLRI_TLV_ADMINISTRATIVE_GROUP_COLOR = 1088"
definition BGP_NLRI_TLV_MAX_LINK_BANDWIDTH :: nat where
  "BGP_NLRI_TLV_MAX_LINK_BANDWIDTH = 1089"
definition BGP_NLRI_TLV_MAX_RESERVABLE_LINK_BANDWIDTH :: nat where
  "BGP_NLRI_TLV_MAX_RESERVABLE_LINK_BANDWIDTH = 1090"
definition BGP_NLRI_TLV_UNRESERVED_BANDWIDTH :: nat where
  "BGP_NLRI_TLV_UNRESERVED_BANDWIDTH = 1091"
definition BGP_NLRI_TLV_TE_DEFAULT_METRIC :: nat where
  "BGP_NLRI_TLV_TE_DEFAULT_METRIC = 1092"
definition BGP_NLRI_TLV_LINK_PROTECTION_TYPE :: nat where
  "BGP_NLRI_TLV_LINK_PROTECTION_TYPE = 1093"
definition BGP_NLRI_TLV_MPLS_PROTOCOL_MASK :: nat where
  "BGP_NLRI_TLV_MPLS_PROTOCOL_MASK = 1094"
definition BGP_NLRI_TLV_IGP_METRIC :: nat where
  "BGP_NLRI_TLV_IGP_METRIC = 1095"
definition BGP_NLRI_TLV_SHARED_RISK_LINK_GROUP :: nat where
  "BGP_NLRI_TLV_SHARED_RISK_LINK_GROUP = 1096"
definition BGP_NLRI_TLV_OPAQUE_LINK_ATTRIBUTE :: nat where
  "BGP_NLRI_TLV_OPAQUE_LINK_ATTRIBUTE = 1097"
definition BGP_NLRI_TLV_LINK_NAME_ATTRIBUTE :: nat where
  "BGP_NLRI_TLV_LINK_NAME_ATTRIBUTE = 1098"
definition BGP_NLRI_TLV_IGP_FLAGS :: nat where
  "BGP_NLRI_TLV_IGP_FLAGS = 1152"
definition BGP_NLRI_TLV_ROUTE_TAG :: nat where
  "BGP_NLRI_TLV_ROUTE_TAG = 1153"
definition BGP_NLRI_TLV_EXTENDED_TAG :: nat where
  "BGP_NLRI_TLV_EXTENDED_TAG = 1154"
definition BGP_NLRI_TLV_PREFIX_METRIC :: nat where
  "BGP_NLRI_TLV_PREFIX_METRIC = 1155"
definition BGP_NLRI_TLV_OSPF_FORWARDING_ADDRESS :: nat where
  "BGP_NLRI_TLV_OSPF_FORWARDING_ADDRESS = 1156"
definition BGP_NLRI_TLV_OPAQUE_PREFIX_ATTRIBUTE :: nat where
  "BGP_NLRI_TLV_OPAQUE_PREFIX_ATTRIBUTE = 1157"
definition BGP_NLRI_TLV_LEN_IPV4_FOWARDING_ADDRESS :: nat where
  "BGP_NLRI_TLV_LEN_IPV4_FOWARDING_ADDRESS = 4"
definition BGP_NLRI_TLV_LEN_IPV6_FOWARDING_ADDRESS :: nat where
  "BGP_NLRI_TLV_LEN_IPV6_FOWARDING_ADDRESS = 16"

lemmas attr_code_points =
  BGP_NLRI_TLV_MULTI_TOPOLOGY_ID_def BGP_NLRI_TLV_NODE_FLAG_BITS_def
  BGP_NLRI_TLV_OPAQUE_NODE_PROPERTIES_def BGP_NLRI_TLV_NODE_NAME_def
  BGP_NLRI_TLV_IS_IS_AREA_IDENTIFIER_def BGP_NLRI_TLV_IPV4_ROUTER_ID_OF_LOCAL_NODE_def
  BGP_NLRI_TLV_IPV6_ROUTER_ID_OF_LOCAL_NODE_def BGP_NLRI_TLV_IPV4_ROUTER_ID_OF_REMOTE_NODE_def
  BGP_NLRI_TLV_IPV6_ROUTER_ID_OF_REMOTE_NODE_def BGP_NLRI_TLV_ADMINISTRATIVE_GROUP_COLOR_def
  BGP_NLRI_TLV_MAX_LINK_BANDWIDTH_def BGP_NLRI_TLV_MAX_RESERVABLE_LINK_BANDWIDTH_def
  BGP_NLRI_TLV_UNRESERVED_BANDWIDTH_def BGP_NLRI_TLV_TE_DEFAULT_METRIC_def
  BGP_NLRI_TLV_LINK_PROTECTION_TYPE_def BGP_NLRI_TLV_MPLS_PROTOCOL_MASK_def
  BGP_NLRI_TLV_IGP_METRIC_def BGP_NLRI_TLV_SHARED_RISK_LINK_GROUP_def
  BGP_NLRI_TLV_OPAQUE_LINK_ATTRIBUTE_def BGP_NLRI_TLV_LINK_NAME_ATTRIBUTE_def
  BGP_NLRI_TLV_IGP_FLAGS_def BGP_NLRI_TLV_ROUTE_TAG_def BGP_NLRI_TLV_EXTENDED_TAG_def
  BGP_NLRI_TLV_PREFIX_METRIC_def BGP_NLRI_TLV_OSPF_FORWARDING_ADDRESS_def
  BGP_NLRI_TLV_OPAQUE_PREFIX_ATTRIBUTE_def

text \<open>
  What a display function prints: each call of \<^verbatim>\<open>vty_out\<close> or \<^verbatim>\<open>zlog_debug\<close> with its
  format and its operands. An operand is a number the function computed (a count, an index,
  a header field), a byte it read through a \<^verbatim>\<open>uint8_t\<close> pointer, the bytes of a field of
  the structure overlaid at \<^verbatim>\<open>tlvh\<close> as they lie in the memory (\<open>Bytes\<close>), or the address
  of such a field, an offset, where the format is \<^verbatim>\<open>%p\<close> and nothing is read (\<open>Addr\<close>). The
  conversion the source applies to the bytes of a field (\<^verbatim>\<open>ntohs\<close>, \<^verbatim>\<open>ntohl\<close>, \<^verbatim>\<open>ntohf\<close>, a
  cast) is not followed: the operand is the bytes that were read.
\<close>

datatype operand = Num int | Byte u8 | Bytes "u8 list" | Addr nat

datatype out = Vty_out string "operand list" | Zlog_debug string "operand list"

subsection \<open>The formatters\<close>

text \<open>
  \<^verbatim>\<open>if (vty != NULL) vty_out(vty, f, ...) else zlog_debug(g, ...)\<close>, the pattern of every
  formatter; \<open>vty\<close> is true when the pointer is not null.
\<close>

definition print_line :: "bool \<Rightarrow> string \<Rightarrow> string \<Rightarrow> operand list \<Rightarrow> out" where
  "print_line vty vfmt zfmt ops = (if vty then Vty_out vfmt ops else Zlog_debug zfmt ops)"

text \<open>\<^verbatim>\<open>return BGP_TLV_SIZE(tlvh)\<close> from a function whose result is a \<^verbatim>\<open>uint16_t\<close>.\<close>

definition return_tlv_size ::
  "host \<Rightarrow> u8 list \<Rightarrow> nat \<Rightarrow> out list \<Rightarrow> fault + (out list \<times> nat)" where
  "return_tlv_size h mem tlvh lines =
     and_then (BGP_TLV_SIZE h mem tlvh) (\<lambda>n. Inr (lines, n mod 65536))"

text \<open>
  A read of \<open>w\<close> bytes at offset \<open>i\<close>: the bytes, or \<open>Read_outside\<close> with the offset of the
  first of them that is not in the memory.
\<close>

definition read_bytes :: "u8 list \<Rightarrow> nat \<Rightarrow> nat \<Rightarrow> fault + u8 list" where
  "read_bytes mem i w =
     (if i + w \<le> length mem then Inr (take w (drop i mem))
      else Inl (Read_outside (max i (length mem))))"

text \<open>
  Modelled from the spec: the structures that the formatters overlay on a TLV
  (\<^verbatim>\<open>struct bgp_nlri_tlv_...\<close>, a \<^verbatim>\<open>header\<close> and a \<^verbatim>\<open>value\<close>) are declared in
  \<^verbatim>\<open>bgpd/bgp_ls.h\<close>, which is not among the source files. By sections 4.2 and 6 of the
  specification the value of a TLV follows the four bytes of its header, so \<^verbatim>\<open>top->value\<close>
  is at \<open>tlvh + 4\<close>, and where it is an array its elements follow one another from there:
  \<open>top_value mem tlvh w i\<close> is the read of \<^verbatim>\<open>top->value[i]\<close> for elements of \<open>w\<close> bytes (of
  \<^verbatim>\<open>top->value\<close> itself with \<open>i = 0\<close>). The widths are those of the wire fields:

    \<^item> 4 bytes for a field passed to \<^verbatim>\<open>ntohl\<close> or \<^verbatim>\<open>ntohf\<close> and for an address printed with
      \<^verbatim>\<open>%pI4\<close>, 16 bytes for one printed with \<^verbatim>\<open>%pI6\<close>, 2 bytes for the link protection
      type (\<^verbatim>\<open>(uint16_t)ntohs(top->value)\<close>);

    \<^item> 1 byte for the node flag bits, the MPLS protocol mask and the IGP flags, which the
      source casts to \<^verbatim>\<open>uint8_t\<close> (the table before \<^verbatim>\<open>bgp_mp_prefix_decode\<close> gives the IGP
      flags the length 1), and for \<^verbatim>\<open>*top->value\<close> of the IGP metric, the first byte of
      the value;

    \<^item> for the lists: 2 bytes for a multi-topology identifier (sections 3 and 6 of the
      specification), 4 bytes for a shared risk link group and for a route tag (the
      comments "The size is 4 bytes" in the source, and \<open>4*n\<close> in the table), 8 bytes for
      an extended tag (the comment "The size is 8 bytes", \<open>8*n\<close> in the table, sections 4.7
      and 8 of the specification), 4 bytes for each of the eight unreserved bandwidths
      (\<^verbatim>\<open>ntohf\<close>).

  Where the source prints \<^verbatim>\<open>top->value\<close> or \<^verbatim>\<open>&top->value\<close> with \<^verbatim>\<open>%p\<close> the operand is the
  address of the value and no byte of it is read.
\<close>

definition top_value :: "u8 list \<Rightarrow> nat \<Rightarrow> nat \<Rightarrow> nat \<Rightarrow> fault + u8 list" where
  "top_value mem tlvh w i = read_bytes mem (tlvh + BGP_TLV_HDR_SIZE + w * i) w"

definition sizeof_mt_id_value :: nat where
  "sizeof_mt_id_value = 2"

definition sizeof_srlg_value :: nat where
  "sizeof_srlg_value = 4"

definition sizeof_route_tag_value :: nat where
  "sizeof_route_tag_value = 4"

definition sizeof_extended_tag_value :: nat where
  "sizeof_extended_tag_value = 8"

definition sizeof_float :: nat where
  "sizeof_float = 4"

text \<open>
  The formatters that print one line and return the size of the TLV. They read the value
  first and the length field last, and never look at the declared length to decide what to
  read or print.
\<close>

definition show_vty_node_flag_bits ::
  "host \<Rightarrow> bool \<Rightarrow> u8 list \<Rightarrow> nat \<Rightarrow> fault + (out list \<times> nat)" where
  "show_vty_node_flag_bits h vty mem tlvh =
     and_then (top_value mem tlvh 1 0) (\<lambda>v.
       return_tlv_size h mem tlvh
         [print_line vty ''    Node flag bits: %d\<newline>''
            ''      Node flag bits: %d'' [Bytes v]])"

definition show_vty_opaque_node_properties ::
  "host \<Rightarrow> bool \<Rightarrow> u8 list \<Rightarrow> nat \<Rightarrow> fault + (out list \<times> nat)" where
  "show_vty_opaque_node_properties h vty mem tlvh =
     return_tlv_size h mem tlvh
       [print_line vty ''    Opaque Node Properties: %p\<newline>''
          ''     Opaque Node Properties: %p'' [Addr (tlvh + BGP_TLV_HDR_SIZE)]]"

definition show_vty_node_name ::
  "host \<Rightarrow> bool \<Rightarrow> u8 list \<Rightarrow> nat \<Rightarrow> fault + (out list \<times> nat)" where
  "show_vty_node_name h vty mem tlvh =
     return_tlv_size h mem tlvh
       [print_line vty ''    Node name: %p\<newline>''
          ''     Node name: %p'' [Addr (tlvh + BGP_TLV_HDR_SIZE)]]"

definition show_vty_is_is_area_identifier ::
  "host \<Rightarrow> bool \<Rightarrow> u8 list \<Rightarrow> nat \<Rightarrow> fault + (out list \<times> nat)" where
  "show_vty_is_is_area_identifier h vty mem tlvh =
     return_tlv_size h mem tlvh
       [print_line vty ''    IS-IS Area Identifier: %p\<newline>''
          ''     IS-IS Area Identifier: %p'' [Addr (tlvh + BGP_TLV_HDR_SIZE)]]"

definition show_vty_ipv4_router_id_of_local_node ::
  "host \<Rightarrow> bool \<Rightarrow> u8 list \<Rightarrow> nat \<Rightarrow> fault + (out list \<times> nat)" where
  "show_vty_ipv4_router_id_of_local_node h vty mem tlvh =
     and_then (top_value mem tlvh 4 0) (\<lambda>v.
       return_tlv_size h mem tlvh
         [print_line vty '' IPv4 Router ID of local node: %pI4\<newline>''
            ''   IPv4 Router ID of local node: %pI4'' [Bytes v]])"

definition show_vty_ipv6_router_id_of_local_node ::
  "host \<Rightarrow> bool \<Rightarrow> u8 list \<Rightarrow> nat \<Rightarrow> fault + (out list \<times> nat)" where
  "show_vty_ipv6_router_id_of_local_node h vty mem tlvh =
     and_then (top_value mem tlvh 16 0) (\<lambda>v.
       return_tlv_size h mem tlvh
         [print_line vty ([CHR 0x09] @ '' IPv6 Router ID of local node: %pI6\<newline>'')
            ''   IPv6 Router ID of local node: %pI6'' [Bytes v]])"

definition show_vty_ipv4_router_id_of_remote_node ::
  "host \<Rightarrow> bool \<Rightarrow> u8 list \<Rightarrow> nat \<Rightarrow> fault + (out list \<times> nat)" where
  "show_vty_ipv4_router_id_of_remote_node h vty mem tlvh =
     and_then (top_value mem tlvh 4 0) (\<lambda>v.
       return_tlv_size h mem tlvh
         [print_line vty '' IPv4 Router ID of remote node: %pI4\<newline>''
            ''   IPv4 Router ID of remote node: %pI4'' [Bytes v]])"

definition show_vty_ipv6_router_id_of_remote_node ::
  "host \<Rightarrow> bool \<Rightarrow> u8 list \<Rightarrow> nat \<Rightarrow> fault + (out list \<times> nat)" where
  "show_vty_ipv6_router_id_of_remote_node h vty mem tlvh =
     and_then (top_value mem tlvh 16 0) (\<lambda>v.
       return_tlv_size h mem tlvh
         [print_line vty '' IPv6 Router ID of remote node: %pI6\<newline>''
            ''   IPv6 Router ID of remote node: %pI6'' [Bytes v]])"

definition show_vty_admin_grp_color ::
  "host \<Rightarrow> bool \<Rightarrow> u8 list \<Rightarrow> nat \<Rightarrow> fault + (out list \<times> nat)" where
  "show_vty_admin_grp_color h vty mem tlvh =
     and_then (top_value mem tlvh 4 0) (\<lambda>v.
       return_tlv_size h mem tlvh
         [print_line vty ''    Administrative Group: 0x%x\<newline>''
            ''      Administrative Group: 0x%x'' [Bytes v]])"

definition show_vty_max_link_bw ::
  "host \<Rightarrow> bool \<Rightarrow> u8 list \<Rightarrow> nat \<Rightarrow> fault + (out list \<times> nat)" where
  "show_vty_max_link_bw h vty mem tlvh =
     and_then (top_value mem tlvh 4 0) (\<lambda>v.
       return_tlv_size h mem tlvh
         [print_line vty ''    Maximum Bandwidth: %g (Bytes/sec)\<newline>''
            ''      Maximum Bandwidth: %g (Bytes/sec)'' [Bytes v]])"

definition show_vty_max_rsv_bw ::
  "host \<Rightarrow> bool \<Rightarrow> u8 list \<Rightarrow> nat \<Rightarrow> fault + (out list \<times> nat)" where
  "show_vty_max_rsv_bw h vty mem tlvh =
     and_then (top_value mem tlvh 4 0) (\<lambda>v.
       return_tlv_size h mem tlvh
         [print_line vty ''    Maximum Reservable Bandwidth: %g (Bytes/sec)\<newline>''
            ''      Maximum Reservable Bandwidth: %g (Bytes/sec)'' [Bytes v]])"

definition show_vty_te_metric ::
  "host \<Rightarrow> bool \<Rightarrow> u8 list \<Rightarrow> nat \<Rightarrow> fault + (out list \<times> nat)" where
  "show_vty_te_metric h vty mem tlvh =
     and_then (top_value mem tlvh 4 0) (\<lambda>v.
       return_tlv_size h mem tlvh
         [print_line vty ''    Traffic Engineering Metric: %u\<newline>''
            ''      Traffic Engineering Metric: %u'' [Bytes v]])"

definition show_vty_link_protection_type ::
  "host \<Rightarrow> bool \<Rightarrow> u8 list \<Rightarrow> nat \<Rightarrow> fault + (out list \<times> nat)" where
  "show_vty_link_protection_type h vty mem tlvh =
     and_then (top_value mem tlvh 2 0) (\<lambda>v.
       return_tlv_size h mem tlvh
         [print_line vty ''  Link Protection Type: %d\<newline>''
            ''    Link Protection Type: %d'' [Bytes v]])"

definition show_vty_mpls_protocol_mask ::
  "host \<Rightarrow> bool \<Rightarrow> u8 list \<Rightarrow> nat \<Rightarrow> fault + (out list \<times> nat)" where
  "show_vty_mpls_protocol_mask h vty mem tlvh =
     and_then (top_value mem tlvh 1 0) (\<lambda>v.
       return_tlv_size h mem tlvh
         [print_line vty ''    MPLS Protocol Mask: %c\<newline>''
            ''      MPLS Protocol Mask: %c'' [Bytes v]])"

definition show_vty_igp_metric ::
  "host \<Rightarrow> bool \<Rightarrow> u8 list \<Rightarrow> nat \<Rightarrow> fault + (out list \<times> nat)" where
  "show_vty_igp_metric h vty mem tlvh =
     and_then (top_value mem tlvh 1 0) (\<lambda>v.
       return_tlv_size h mem tlvh
         [print_line vty ''    IGP Metric: %u\<newline>''
            ''    IGP Metric: %u'' [Bytes v]])"

definition show_vty_opaque_link_attribute ::
  "host \<Rightarrow> bool \<Rightarrow> u8 list \<Rightarrow> nat \<Rightarrow> fault + (out list \<times> nat)" where
  "show_vty_opaque_link_attribute h vty mem tlvh =
     return_tlv_size h mem tlvh
       [print_line vty ''    Opaque Link attributes: %p\<newline>''
          ''    Opaque Link attributes: %p'' [Addr (tlvh + BGP_TLV_HDR_SIZE)]]"

definition show_vty_link_name_attribute ::
  "host \<Rightarrow> bool \<Rightarrow> u8 list \<Rightarrow> nat \<Rightarrow> fault + (out list \<times> nat)" where
  "show_vty_link_name_attribute h vty mem tlvh =
     return_tlv_size h mem tlvh
       [print_line vty ''    Link Name: %p\<newline>''
          ''    Link Name: %p'' [Addr (tlvh + BGP_TLV_HDR_SIZE)]]"

definition show_vty_bgp_nlri_tlv_igp_flags ::
  "host \<Rightarrow> bool \<Rightarrow> u8 list \<Rightarrow> nat \<Rightarrow> fault + (out list \<times> nat)" where
  "show_vty_bgp_nlri_tlv_igp_flags h vty mem tlvh =
     and_then (top_value mem tlvh 1 0) (\<lambda>v.
       return_tlv_size h mem tlvh
         [print_line vty ''    IGP Flags: %u\<newline>''
            ''    IGP Flags: %u'' [Bytes v]])"

definition show_vty_bgp_nlri_tlv_prefix_metric ::
  "host \<Rightarrow> bool \<Rightarrow> u8 list \<Rightarrow> nat \<Rightarrow> fault + (out list \<times> nat)" where
  "show_vty_bgp_nlri_tlv_prefix_metric h vty mem tlvh =
     and_then (top_value mem tlvh 4 0) (\<lambda>v.
       return_tlv_size h mem tlvh
         [print_line vty ''    Prefix Metric: %u\<newline>''
            ''    Prefix Metric: %u'' [Bytes v]])"

definition show_bgp_nlri_tlv_opaque_prefix_attribute ::
  "host \<Rightarrow> bool \<Rightarrow> u8 list \<Rightarrow> nat \<Rightarrow> fault + (out list \<times> nat)" where
  "show_bgp_nlri_tlv_opaque_prefix_attribute h vty mem tlvh =
     return_tlv_size h mem tlvh
       [print_line vty ''    Opaque prefix Attribute: %p\<newline>''
          ''    Opaque prefix Attribute: %p'' [Addr (tlvh + BGP_TLV_HDR_SIZE)]]"

text \<open>
  \<^verbatim>\<open>show_vty_unrsv_bw\<close>: the loop \<^verbatim>\<open>for (i = 0; i < 8; i += 2)\<close> reads \<^verbatim>\<open>top->value[i]\<close>
  and \<^verbatim>\<open>top->value[i + 1]\<close> in every pass, whatever the declared length.
\<close>

fun unrsv_bw_lines :: "bool \<Rightarrow> u8 list \<Rightarrow> nat \<Rightarrow> nat list \<Rightarrow> fault + out list" where
  "unrsv_bw_lines vty mem tlvh [] = Inr []"
| "unrsv_bw_lines vty mem tlvh (i # js) =
     and_then (top_value mem tlvh sizeof_float i) (\<lambda>fval1.
     and_then (top_value mem tlvh sizeof_float (i + 1)) (\<lambda>fval2.
     and_then (unrsv_bw_lines vty mem tlvh js) (\<lambda>rest.
       Inr (print_line vty
              (''      [%d]: %g (Bytes/sec),'' @ [CHR 0x09] @ ''[%d]: %g (Bytes/sec)\<newline>'')
              ''        [%d]: %g (Bytes/sec), [%d]: %g (Bytes/sec)''
              [Num (int i), Bytes fval1, Num (int i + 1), Bytes fval2] # rest))))"

definition show_vty_unrsv_bw ::
  "host \<Rightarrow> bool \<Rightarrow> u8 list \<Rightarrow> nat \<Rightarrow> fault + (out list \<times> nat)" where
  "show_vty_unrsv_bw h vty mem tlvh =
     and_then (unrsv_bw_lines vty mem tlvh [0, 2, 4, 6]) (\<lambda>lines.
       return_tlv_size h mem tlvh
         (print_line vty ''    Unreserved Bandwidth:\<newline>''
            ''      Unreserved Bandwidth:'' [] # lines))"

text \<open>
  \<^verbatim>\<open>show_bgp_nlri_tlv_ospf_fowarding_adress\<close>: with a terminal the length field, as the host
  reads it, selects the address that is printed (none for a length other than 4 and 16);
  without one both members of the union are printed.
\<close>

definition show_bgp_nlri_tlv_ospf_fowarding_adress ::
  "host \<Rightarrow> bool \<Rightarrow> u8 list \<Rightarrow> nat \<Rightarrow> fault + (out list \<times> nat)" where
  "show_bgp_nlri_tlv_ospf_fowarding_adress h vty mem tlvh =
     (if vty then
        and_then (nlri_length h mem tlvh) (\<lambda>l.
        and_then
          (if l = BGP_NLRI_TLV_LEN_IPV4_FOWARDING_ADDRESS then
             and_then (top_value mem tlvh 4 0) (\<lambda>v.
               Inr [Vty_out '' IPv4 OSPF Fowarding Address: %pI4\<newline>'' [Bytes v]])
           else Inr [])
          (\<lambda>lines4.
        and_then
          (if l = BGP_NLRI_TLV_LEN_IPV6_FOWARDING_ADDRESS then
             and_then (top_value mem tlvh 16 0) (\<lambda>v.
               Inr [Vty_out ([CHR 0x09] @ '' IPv6 OSPF Fowarding Address: %pI6\<newline>'') [Bytes v]])
           else Inr [])
          (\<lambda>lines6. return_tlv_size h mem tlvh (lines4 @ lines6))))
      else
        and_then (top_value mem tlvh 4 0) (\<lambda>v4.
        and_then (top_value mem tlvh 16 0) (\<lambda>v6.
          return_tlv_size h mem tlvh
            [Zlog_debug ''   IPv4 OSPF Fowarding Address: %pI4'' [Bytes v4],
             Zlog_debug ''   IPv6 OSPF Fowarding Address: %pI6'' [Bytes v6]])))"

text \<open>
  The formatters of the lists. The count is the declared length divided by the element
  size; for the Multi-Topology identifiers that is \<^verbatim>\<open>sizeof(top->value[0])\<close>, for the other
  three it is \<^verbatim>\<open>sizeof(&top->value[0])\<close>, the size of a pointer. The division truncates and
  no formatter tests the remainder. The loop \<^verbatim>\<open>for (i = 0; i < n; i++)\<close> then reads
  \<^verbatim>\<open>top->value[i]\<close> for every index below the count, \<open>value_lines\<close> with the indices
  \<open>[0..<n]\<close>; the result is \<^verbatim>\<open>BGP_TLV_SIZE(tlvh)\<close> as everywhere.
\<close>

fun value_lines ::
  "u8 list \<Rightarrow> nat \<Rightarrow> nat \<Rightarrow> (nat \<Rightarrow> u8 list \<Rightarrow> out) \<Rightarrow> nat list \<Rightarrow> fault + out list" where
  "value_lines mem tlvh w line [] = Inr []"
| "value_lines mem tlvh w line (i # js) =
     and_then (top_value mem tlvh w i) (\<lambda>v.
     and_then (value_lines mem tlvh w line js) (\<lambda>rest. Inr (line i v # rest)))"

definition show_vty_multi_topology_identifier ::
  "host \<Rightarrow> bool \<Rightarrow> u8 list \<Rightarrow> nat \<Rightarrow> fault + (out list \<times> nat)" where
  "show_vty_multi_topology_identifier h vty mem tlvh =
     and_then (nlri_length h mem tlvh) (\<lambda>l.
       let n = ntohs h l div sizeof_mt_id_value in
       and_then
         (value_lines mem tlvh sizeof_mt_id_value
            (\<lambda>i v. print_line vty '' ID   #%d: %d\<newline>''
                     ''   ID   #%d: %d'' [Num (int i), Bytes v]) [0..<n])
         (\<lambda>lines.
            return_tlv_size h mem tlvh
              (print_line vty ''  Multi Topology ID number: %d\<newline>''
                 ''  Multi Topology ID number: %d'' [Num (int n)] # lines)))"

definition show_vty_shared_risk_link_group ::
  "host \<Rightarrow> bool \<Rightarrow> u8 list \<Rightarrow> nat \<Rightarrow> fault + (out list \<times> nat)" where
  "show_vty_shared_risk_link_group h vty mem tlvh =
     and_then (nlri_length h mem tlvh) (\<lambda>l.
       let n = ntohs h l div sizeof_pointer h in
       and_then
         (value_lines mem tlvh sizeof_srlg_value
            (\<lambda>i v. print_line vty ('' Value n'' @ [CHR 0xC2, CHR 0xB0] @ ''   #%d: %d\<newline>'')
                     (''  Value n'' @ [CHR 0xC2, CHR 0xB0] @ ''  #%d: %d'') [Num (int i), Bytes v])
            [0..<n])
         (\<lambda>lines.
            return_tlv_size h mem tlvh
              (print_line vty ''  Shared Risk Link Group Number: %d\<newline>''
                 ''  Shared Risk Link Group Number: %d'' [Num (int n)] # lines)))"

definition show_vty_bgp_nlri_tlv_route_tag ::
  "host \<Rightarrow> bool \<Rightarrow> u8 list \<Rightarrow> nat \<Rightarrow> fault + (out list \<times> nat)" where
  "show_vty_bgp_nlri_tlv_route_tag h vty mem tlvh =
     and_then (nlri_length h mem tlvh) (\<lambda>l.
       let n = ntohs h l div sizeof_pointer h in
       and_then
         (value_lines mem tlvh sizeof_route_tag_value
            (\<lambda>i v. print_line vty ('' Value n'' @ [CHR 0xC2, CHR 0xB0] @ ''   #%d: %x\<newline>'')
                     (''  Value n'' @ [CHR 0xC2, CHR 0xB0] @ ''  #%d: %x'') [Num (int i), Bytes v])
            [0..<n])
         (\<lambda>lines.
            return_tlv_size h mem tlvh
              (print_line vty ''  Route Tag(s): %d\<newline>''
                 ''  Route Tag(s): %d'' [Num (int n)] # lines)))"

definition show_vty_bgp_nlri_tlv_extended_tag ::
  "host \<Rightarrow> bool \<Rightarrow> u8 list \<Rightarrow> nat \<Rightarrow> fault + (out list \<times> nat)" where
  "show_vty_bgp_nlri_tlv_extended_tag h vty mem tlvh =
     and_then (nlri_length h mem tlvh) (\<lambda>l.
       let n = ntohs h l div sizeof_pointer h in
       and_then
         (value_lines mem tlvh sizeof_extended_tag_value
            (\<lambda>i v. print_line vty ('' Value n'' @ [CHR 0xC2, CHR 0xB0] @ ''   #%d: %llu\<newline>'')
                     (''  Value n'' @ [CHR 0xC2, CHR 0xB0] @ ''  #%d: %llu'') [Num (int i), Bytes v])
            [0..<n])
         (\<lambda>lines.
            return_tlv_size h mem tlvh
              (print_line vty ''  Extended Route Tag(s): %d\<newline>''
                 ''  Extended Route Tag(s): %d'' [Num (int n)] # lines)))"

text \<open>
  \<^verbatim>\<open>show_vty_unknown_tlv\<close>. The fields are printed as the host reads them (no \<^verbatim>\<open>ntohs\<close>);
  with a terminal and a length other than zero, \<^verbatim>\<open>nlri_length\<close> bytes are dumped from the
  start of the header on, eight to a line. The function returns \<^verbatim>\<open>BGP_TLV_HDR_SIZE\<close>
  whatever the length.
\<close>

function unknown_tlv_dump ::
  "u8 list \<Rightarrow> nat \<Rightarrow> nat \<Rightarrow> nat \<Rightarrow> nat \<Rightarrow> out list \<Rightarrow> fault + out list" where
  "unknown_tlv_dump mem tlvh len i rtn acc =
     (if i < len then
        (case peek mem (tlvh + i) of
           Inl f \<Rightarrow> Inl f
         | Inr b \<Rightarrow>
             if rtn = 8 then
               unknown_tlv_dump mem tlvh len (i + 1) 1
                 (acc @ [Vty_out '' %#.2x'' [Byte b],
                         Vty_out ''\<newline>             [%.2x]'' [Num (int i + 1)]])
             else
               unknown_tlv_dump mem tlvh len (i + 1) (rtn + 1)
                 (acc @ [Vty_out '' %#.2x'' [Byte b]]))
      else Inr acc)"
  by pat_completeness auto
termination
  by (relation "measure (\<lambda>(mem, tlvh, len, i, rtn, acc). len - i)") auto

declare unknown_tlv_dump.simps [simp del]

definition show_vty_unknown_tlv ::
  "host \<Rightarrow> bool \<Rightarrow> u8 list \<Rightarrow> nat \<Rightarrow> fault + (out list \<times> nat)" where
  "show_vty_unknown_tlv h vty mem tlvh =
     and_then (nlri_type h mem tlvh) (\<lambda>t.
     and_then (nlri_length h mem tlvh) (\<lambda>l.
       if vty then
         (if l \<noteq> 0 then
            and_then
              (unknown_tlv_dump mem tlvh l 0 1
                 [Vty_out ''    Unknown TLV: [type(%#.2x), length(%#.2x)]\<newline>''
                    [Num (int t), Num (int l)],
                  Vty_out ''       Dump: [00]'' []])
              (\<lambda>lines. Inr (lines @ [Vty_out ''\<newline>'' []], BGP_TLV_HDR_SIZE))
          else
            Inr ([Vty_out ''    Unknown TLV: [type(%#.2x), length(%#.2x)]\<newline>''
                    [Num (int t), Num (int l)]], BGP_TLV_HDR_SIZE))
       else
         Inr ([Zlog_debug ''      Unknown TLV: [type(%#.2x), length(%#.2x)]''
                 [Num (int t), Num (int l)]], BGP_TLV_HDR_SIZE)))"

subsection \<open>The walk over the attribute\<close>

text \<open>The \<^verbatim>\<open>switch (ntohs(tlvh->nlri_type))\<close> of \<^verbatim>\<open>show_bgp_linkstate_print_detail\<close>.\<close>

definition dispatch ::
  "host \<Rightarrow> bool \<Rightarrow> u8 list \<Rightarrow> nat \<Rightarrow> fault + (out list \<times> nat)" where
  "dispatch h vty mem tlvh =
     and_then (nlri_type h mem tlvh) (\<lambda>t.
       let ty = ntohs h t in
       if ty = BGP_NLRI_TLV_MULTI_TOPOLOGY_ID then
         show_vty_multi_topology_identifier h vty mem tlvh
       else if ty = BGP_NLRI_TLV_NODE_FLAG_BITS then
         show_vty_node_flag_bits h vty mem tlvh
       else if ty = BGP_NLRI_TLV_OPAQUE_NODE_PROPERTIES then
         show_vty_opaque_node_properties h vty mem tlvh
       else if ty = BGP_NLRI_TLV_NODE_NAME then
         show_vty_node_name h vty mem tlvh
       else if ty = BGP_NLRI_TLV_IS_IS_AREA_IDENTIFIER then
         show_vty_is_is_area_identifier h vty mem tlvh
       else if ty = BGP_NLRI_TLV_IPV4_ROUTER_ID_OF_LOCAL_NODE then
         show_vty_ipv4_router_id_of_local_node h vty mem tlvh
       else if ty = BGP_NLRI_TLV_IPV6_ROUTER_ID_OF_LOCAL_NODE then
         show_vty_ipv6_router_id_of_local_node h vty mem tlvh
       else if ty = BGP_NLRI_TLV_IPV4_ROUTER_ID_OF_REMOTE_NODE then
         show_vty_ipv4_router_id_of_remote_node h vty mem tlvh
       else if ty = BGP_NLRI_TLV_IPV6_ROUTER_ID_OF_REMOTE_NODE then
         show_vty_ipv6_router_id_of_remote_node h vty mem tlvh
       else if ty = BGP_NLRI_TLV_ADMINISTRATIVE_GROUP_COLOR then
         show_vty_admin_grp_color h vty mem tlvh
       else if ty = BGP_NLRI_TLV_MAX_LINK_BANDWIDTH then
         show_vty_max_link_bw h vty mem tlvh
       else if ty = BGP_NLRI_TLV_MAX_RESERVABLE_LINK_BANDWIDTH then
         show_vty_max_rsv_bw h vty mem tlvh
       else if ty = BGP_NLRI_TLV_UNRESERVED_BANDWIDTH then
         show_vty_unrsv_bw h vty mem tlvh
       else if ty = BGP_NLRI_TLV_TE_DEFAULT_METRIC then
         show_vty_te_metric h vty mem tlvh
       else if ty = BGP_NLRI_TLV_LINK_PROTECTION_TYPE then
         show_vty_link_protection_type h vty mem tlvh
       else if ty = BGP_NLRI_TLV_MPLS_PROTOCOL_MASK then
         show_vty_mpls_protocol_mask h vty mem tlvh
       else if ty = BGP_NLRI_TLV_IGP_METRIC then
         show_vty_igp_metric h vty mem tlvh
       else if ty = BGP_NLRI_TLV_SHARED_RISK_LINK_GROUP then
         show_vty_shared_risk_link_group h vty mem tlvh
       else if ty = BGP_NLRI_TLV_OPAQUE_LINK_ATTRIBUTE then
         show_vty_opaque_link_attribute h vty mem tlvh
       else if ty = BGP_NLRI_TLV_LINK_NAME_ATTRIBUTE then
         show_vty_link_name_attribute h vty mem tlvh
       else if ty = BGP_NLRI_TLV_IGP_FLAGS then
         show_vty_bgp_nlri_tlv_igp_flags h vty mem tlvh
       else if ty = BGP_NLRI_TLV_ROUTE_TAG then
         show_vty_bgp_nlri_tlv_route_tag h vty mem tlvh
       else if ty = BGP_NLRI_TLV_EXTENDED_TAG then
         show_vty_bgp_nlri_tlv_extended_tag h vty mem tlvh
       else if ty = BGP_NLRI_TLV_PREFIX_METRIC then
         show_vty_bgp_nlri_tlv_prefix_metric h vty mem tlvh
       else if ty = BGP_NLRI_TLV_OSPF_FORWARDING_ADDRESS then
         show_bgp_nlri_tlv_ospf_fowarding_adress h vty mem tlvh
       else if ty = BGP_NLRI_TLV_OPAQUE_PREFIX_ATTRIBUTE then
         show_bgp_nlri_tlv_opaque_prefix_attribute h vty mem tlvh
       else show_vty_unknown_tlv h vty mem tlvh)"

text \<open>The case labels of that switch: the types that have a formatter of their own.\<close>

definition registered_tlv_types :: "nat list" where
  "registered_tlv_types =
     [BGP_NLRI_TLV_MULTI_TOPOLOGY_ID,
      BGP_NLRI_TLV_NODE_FLAG_BITS,
      BGP_NLRI_TLV_OPAQUE_NODE_PROPERTIES,
      BGP_NLRI_TLV_NODE_NAME,
      BGP_NLRI_TLV_IS_IS_AREA_IDENTIFIER,
      BGP_NLRI_TLV_IPV4_ROUTER_ID_OF_LOCAL_NODE,
      BGP_NLRI_TLV_IPV6_ROUTER_ID_OF_LOCAL_NODE,
      BGP_NLRI_TLV_IPV4_ROUTER_ID_OF_REMOTE_NODE,
      BGP_NLRI_TLV_IPV6_ROUTER_ID_OF_REMOTE_NODE,
      BGP_NLRI_TLV_ADMINISTRATIVE_GROUP_COLOR,
      BGP_NLRI_TLV_MAX_LINK_BANDWIDTH,
      BGP_NLRI_TLV_MAX_RESERVABLE_LINK_BANDWIDTH,
      BGP_NLRI_TLV_UNRESERVED_BANDWIDTH,
      BGP_NLRI_TLV_TE_DEFAULT_METRIC,
      BGP_NLRI_TLV_LINK_PROTECTION_TYPE,
      BGP_NLRI_TLV_MPLS_PROTOCOL_MASK,
      BGP_NLRI_TLV_IGP_METRIC,
      BGP_NLRI_TLV_SHARED_RISK_LINK_GROUP,
      BGP_NLRI_TLV_OPAQUE_LINK_ATTRIBUTE,
      BGP_NLRI_TLV_LINK_NAME_ATTRIBUTE,
      BGP_NLRI_TLV_IGP_FLAGS,
      BGP_NLRI_TLV_ROUTE_TAG,
      BGP_NLRI_TLV_EXTENDED_TAG,
      BGP_NLRI_TLV_PREFIX_METRIC,
      BGP_NLRI_TLV_OSPF_FORWARDING_ADDRESS,
      BGP_NLRI_TLV_OPAQUE_PREFIX_ATTRIBUTE]"

lemma peek_Inr: "peek mem i = Inr b \<Longrightarrow> i < length mem"
  by (simp add: peek_def split: if_splits)

lemma host16_Inr: "host16 h mem i = Inr v \<Longrightarrow> i + 1 < length mem"
  by (auto simp: host16_def and_then_Inr dest: peek_Inr)

lemma BGP_TLV_HDR_NEXT_Inr:
  "BGP_TLV_HDR_NEXT h mem tlvh = Inr nxt \<Longrightarrow> tlvh + 4 \<le> nxt \<and> tlvh + 3 < length mem"
  by (auto simp: BGP_TLV_HDR_NEXT_def BGP_TLV_SIZE_def BGP_TLV_HDR_SIZE_def nlri_length_def
        and_then_Inr dest: host16_Inr)

text \<open>
  The loop
  \<^verbatim>\<open>for (; sum < te->header.nlri_length; tlvh = (next ? next : BGP_TLV_HDR_NEXT(tlvh)))\<close>:
  \<^verbatim>\<open>next\<close> is set to null in every pass and never to anything else, so the pointer always
  moves by \<^verbatim>\<open>BGP_TLV_SIZE(tlvh)\<close>, while \<^verbatim>\<open>sum\<close> (here \<open>sm\<close>), a \<^verbatim>\<open>uint16_t\<close>, grows by
  what the formatter returned. \<open>limit\<close> is \<^verbatim>\<open>te->header.nlri_length\<close>. The pointer moves forward by
  four bytes at least in every pass, so in a finite memory the walk ends: at the bound, or
  with a read outside the memory.
\<close>

function walk ::
  "host \<Rightarrow> bool \<Rightarrow> u8 list \<Rightarrow> nat \<Rightarrow> nat \<Rightarrow> nat \<Rightarrow> out list \<Rightarrow> fault + (nat \<times> out list)" where
  "walk h vty mem limit tlvh sm acc =
     (if sm < limit then
        (case dispatch h vty mem tlvh of
           Inl f \<Rightarrow> Inl f
         | Inr (lines, n) \<Rightarrow>
             (case BGP_TLV_HDR_NEXT h mem tlvh of
                Inl f \<Rightarrow> Inl f
              | Inr nxt \<Rightarrow> walk h vty mem limit nxt ((sm + n) mod 65536) (acc @ lines)))
      else Inr (sm, acc))"
  by pat_completeness auto
termination
proof (relation "measure (\<lambda>(h, vty, mem, limit, tlvh, sm, acc). length mem - tlvh)")
  show "wf (measure (\<lambda>(h, vty, mem, limit, tlvh, sm, acc). length mem - tlvh))"
    by simp
next
  fix h :: host and vty :: bool and mem :: "u8 list" and limit tlvh sm :: nat
    and acc lines :: "out list" and x n nxt
  assume "BGP_TLV_HDR_NEXT h mem tlvh = Inr nxt"
  then have "tlvh + 4 \<le> nxt \<and> tlvh + 3 < length mem"
    by (rule BGP_TLV_HDR_NEXT_Inr)
  then show "((h, vty, mem, limit, nxt, (sm + n) mod 65536, acc @ lines),
              (h, vty, mem, limit, tlvh, sm, acc))
      \<in> measure (\<lambda>(h, vty, mem, limit, tlvh, sm, acc). length mem - tlvh)"
    by (simp add: diff_less_mono2)
qed

declare walk.simps [simp del]

text \<open>
  \<^verbatim>\<open>show_bgp_linkstate_print_detail\<close>: the result is \<^verbatim>\<open>CMD_WARNING\<close> when the type field
  of \<^verbatim>\<open>te->header\<close> is zero, and \<^verbatim>\<open>sum\<close> otherwise. The first header the walk inspects is
  \<^verbatim>\<open>te->header\<close> itself, whose length field is also the bound of the walk, read without
  \<^verbatim>\<open>ntohs\<close>.
\<close>

datatype show_ret = CMD_WARNING | Sum nat

definition show_bgp_linkstate_print_detail ::
  "host \<Rightarrow> bool \<Rightarrow> u8 list \<Rightarrow> fault + (show_ret \<times> out list)" where
  "show_bgp_linkstate_print_detail h vty mem =
     and_then (nlri_type h mem 0) (\<lambda>t.
       if t = 0 then Inr (CMD_WARNING, [Zlog_debug ''BGP-LS: Show database TE detail'' []])
       else
         and_then (nlri_length h mem 0) (\<lambda>limit.
         and_then (walk h vty mem limit 0 0 [Zlog_debug ''BGP-LS: Show database TE detail'' []])
           (\<lambda>(sm, lines). Inr (Sum sm, lines))))"

subsection \<open>The IS-IS identifier formatter\<close>

text \<open>
  \<^verbatim>\<open>lib_isis_format_id\<close> of \<^verbatim>\<open>lib/isis.c\<close> writes into one of four static buffers of
  \<^verbatim>\<open>sizeof("0000.0000.0000.00-00")\<close>, that is 21, characters and returns a pointer to it. The
  static variables are the state: the ring of buffers, each the list of its characters, and
  \<^verbatim>\<open>cur_buf\<close>. The returned pointer is the index of the buffer in the ring. The string a
  buffer holds is what precedes its first NUL character.
\<close>

definition FORMAT_ID_SIZE :: nat where
  "FORMAT_ID_SIZE = 21"

definition FORMAT_BUF_COUNT :: nat where
  "FORMAT_BUF_COUNT = 4"

definition NUL :: char where
  "NUL = CHR 0x00"

record format_id_static =
  buf_ring :: "string list"
  cur_buf :: nat

definition c_string :: "string \<Rightarrow> string" where
  "c_string buf = takeWhile (\<lambda>c. c \<noteq> NUL) buf"

text \<open>
  \<^verbatim>\<open>snprintf(buf + off, sz, ...)\<close> where the formatted text is \<open>txt\<close>: at most
  \<open>sz - 1\<close> characters of it are written at \<open>off\<close>, then a NUL; nothing when \<open>sz\<close> is 0.
\<close>

definition snprintf :: "string \<Rightarrow> nat \<Rightarrow> nat \<Rightarrow> string \<Rightarrow> string" where
  "snprintf buf off sz txt =
     (if sz = 0 then buf
      else let w = take (sz - 1) txt @ [NUL]
           in take off buf @ w @ drop (off + length w) buf)"

text \<open>\<^verbatim>\<open>%02x\<close> of a byte: two hexadecimal digits in lower case.\<close>

definition hex_digit :: "nat \<Rightarrow> char" where
  "hex_digit n = ''0123456789abcdef'' ! (n mod 16)"

definition hex02 :: "u8 \<Rightarrow> string" where
  "hex02 b = [hex_digit (unat b div 16), hex_digit (unat b mod 16)]"

text \<open>
  The identifier is a pointer and a length: \<open>None\<close> is the null pointer, \<open>Some bs\<close> a
  pointer to the array \<open>bs\<close>. The function trusts \<open>len\<close>; a read of \<^verbatim>\<open>id[i]\<close> outside the
  array ends the model with \<open>Read_outside i\<close>.
\<close>

definition lib_isis_format_id ::
  "u8 list option \<Rightarrow> nat \<Rightarrow> format_id_static \<Rightarrow> fault + (nat \<times> format_id_static)" where
  "lib_isis_format_id ident len st =
     (let cur = cur_buf st + 1;
          cur = (if cur \<ge> FORMAT_BUF_COUNT then 0 else cur);
          rv = buf_ring st ! cur;
          ret = (\<lambda>rv. Inr (cur, st\<lparr>buf_ring := (buf_ring st)[cur := rv], cur_buf := cur\<rparr>))
      in case ident of
           None \<Rightarrow> ret (snprintf rv 0 FORMAT_ID_SIZE ''unknown'')
         | Some bs \<Rightarrow>
             if len < 6 then ret (snprintf rv 0 FORMAT_ID_SIZE ''Short ID'')
             else
               and_then (peek bs 0) (\<lambda>b0.
               and_then (peek bs 1) (\<lambda>b1.
               and_then (peek bs 2) (\<lambda>b2.
               and_then (peek bs 3) (\<lambda>b3.
               and_then (peek bs 4) (\<lambda>b4.
               and_then (peek bs 5) (\<lambda>b5.
                 let rv = snprintf rv 0 FORMAT_ID_SIZE
                            (hex02 b0 @ hex02 b1 @ ''.'' @ hex02 b2 @ hex02 b3 @ ''.''
                             @ hex02 b4 @ hex02 b5)
                 in
                 and_then
                   (if len > 6 then
                      and_then (peek bs 6) (\<lambda>b6.
                        Inr (snprintf rv 14 (FORMAT_ID_SIZE - 14) (''.'' @ hex02 b6)))
                    else Inr rv) (\<lambda>rv.
                 and_then
                   (if len > 7 then
                      and_then (peek bs 7) (\<lambda>b7.
                        Inr (snprintf rv 17 (FORMAT_ID_SIZE - 17) (''-'' @ hex02 b7)))
                    else Inr rv) ret))))))))"

text \<open>The static variables when the program starts: zeroed buffers, \<^verbatim>\<open>cur_buf = 0\<close>.\<close>

definition format_id_initial :: format_id_static where
  "format_id_initial =
     \<lparr>buf_ring = replicate FORMAT_BUF_COUNT (replicate FORMAT_ID_SIZE NUL), cur_buf = 0\<rparr>"

text \<open>What holds of the static variables at every call: four buffers of 21 characters.\<close>

definition ring_ok :: "format_id_static \<Rightarrow> bool" where
  "ring_ok st \<longleftrightarrow>
     length (buf_ring st) = FORMAT_BUF_COUNT
     \<and> list_all (\<lambda>b. length b = FORMAT_ID_SIZE) (buf_ring st)
     \<and> cur_buf st < FORMAT_BUF_COUNT"

subsection \<open>Fixtures for the statements\<close>

text \<open>A parser state in which nothing has been decoded or logged yet.\<close>

definition args_initial :: "string \<Rightarrow> bgp_attr_parser_args" where
  "args_initial host_name =
     \<lparr>peer_host = host_name, ext_hdr_proto_id = 0, ext_hdr_nlri_identifier = 0,
      local_node_value = [], remote_node_value = [], llri_local = 0, llri_remote = 0,
      i4ia_value = [], i4na_value = [], i6ia_value = [], mid_value = [], ort_value = 0,
      ipreach_prefix = 0, ipreach_value = [], zlog = []\<rparr>"

text \<open>
  The type and the length of the top-level TLV of the NLRI at the read position: the two
  16-bit fields that follow the nine bytes of the protocol header.
\<close>

definition top_tlv_type :: "stream \<Rightarrow> nat" where
  "top_tlv_type s = be_nat (take 2 (drop (getp s + 9) (data s)))"

definition top_tlv_length :: "stream \<Rightarrow> nat" where
  "top_tlv_length s = be_nat (take 2 (drop (getp s + 11) (data s)))"


text \<open>Two hosts with 8-byte pointers, one of each byte order.\<close>

definition big_endian_host :: host where
  "big_endian_host = \<lparr>little_endian = False, sizeof_pointer = 8\<rparr>"

definition little_endian_host :: host where
  "little_endian_host = \<lparr>little_endian = True, sizeof_pointer = 8\<rparr>"

text \<open>
  The type code and the declared length of the TLV whose header is at \<open>tlvh\<close>, as they
  stand on the wire (big-endian), whatever the byte order of the host.
\<close>

definition tlv_type_code :: "u8 list \<Rightarrow> nat \<Rightarrow> nat" where
  "tlv_type_code mem tlvh = be_nat (take 2 (drop tlvh mem))"

definition tlv_declared_length :: "u8 list \<Rightarrow> nat \<Rightarrow> nat" where
  "tlv_declared_length mem tlvh = be_nat (take 2 (drop (tlvh + 2) mem))"

text \<open>
  The text of the first six bytes of an identifier: three groups of two bytes in
  hexadecimal, separated by dots.
\<close>

definition six_bytes_text :: "u8 list \<Rightarrow> string" where
  "six_bytes_text bs =
     hex02 (bs ! 0) @ hex02 (bs ! 1) @ ''.'' @ hex02 (bs ! 2) @ hex02 (bs ! 3) @ ''.''
     @ hex02 (bs ! 4) @ hex02 (bs ! 5)"

section \<open>Properties\<close>

subsection \<open>Evaluating the reader on an explicit stream\<close>

lemma and_then_simps [simp]:
  "and_then (Inr v) f = f v" "and_then (Inl e) f = Inl e"
  by (simp_all add: and_then_def)

lemma stream_get_eval:
  "stream_get n \<lparr>data = d, getp = p\<rparr> =
     (if p + n \<le> length d then Inr (take n (drop p d), \<lparr>data = d, getp = p + n\<rparr>)
      else Inl TruncatedInput)"
  by (simp add: stream_get_def)

lemma stream_getc_eval:
  "stream_getc \<lparr>data = d, getp = p\<rparr> =
     (if p + 1 \<le> length d then Inr (d ! p, \<lparr>data = d, getp = p + 1\<rparr>)
      else Inl TruncatedInput)"
  by (simp add: stream_getc_def)

lemma stream_getw_eval:
  "stream_getw \<lparr>data = d, getp = p\<rparr> =
     (if p + 2 \<le> length d then Inr (be_nat (take 2 (drop p d)), \<lparr>data = d, getp = p + 2\<rparr>)
      else Inl TruncatedInput)"
  by (simp add: stream_getw_def stream_get_def)

lemma stream_getq_eval:
  "stream_getq \<lparr>data = d, getp = p\<rparr> =
     (if p + 8 \<le> length d then Inr (be_nat (take 8 (drop p d)), \<lparr>data = d, getp = p + 8\<rparr>)
      else Inl TruncatedInput)"
  by (simp add: stream_getq_def stream_get_def)

lemma stream_get_getp_eval: "stream_get_getp \<lparr>data = d, getp = p\<rparr> = p"
  by (simp add: stream_get_getp_def)

lemmas stream_eval = stream_get_eval stream_getc_eval stream_getw_eval stream_getq_eval
  stream_get_getp_eval stream_get_ipv4_def

lemmas decoder_eval = stream_eval be_nat_def nlri_code_points nlri_lengths
  node_descriptor_sub_tlv_def node_descriptors.simps multi_topology_ids.simps
  put_node_value_def zlog_info_def

subsection \<open>The descriptor loop of the node decoder\<close>

text \<open>
  C2. The claim: in the node NLRI decoder the descriptor loop runs until the read position
  reaches the end of the scope, so that of two descriptor sub-TLVs in one Local Node
  Descriptors TLV both are decoded. The code does not do that. On the node NLRI with
  protocol 1, identifier 1 and a Local Node Descriptors TLV of length 16 that holds an
  Autonomous System sub-TLV (value 0, 0, 253, 232) and a BGP-LS Identifier sub-TLV (value
  0, 0, 0, 7), \<^verbatim>\<open>bgp_mp_node_decode\<close> returns with the read position at 21 of 29 bytes: the
  unconditional \<^verbatim>\<open>break\<close> leaves the loop after the first sub-TLV and the second is never
  read.
\<close>

theorem node_decode_stops_after_first_sub_tlv:
  "bgp_mp_node_decode a
     \<lparr>data = [1, 0,0,0,0,0,0,0,1, 1,0, 0,16, 2,0, 0,4, 0,0,253,232, 2,1, 0,4, 0,0,0,7],
      getp = 0\<rparr> =
   Inr (BGP_ATTR_PARSE_PROCEED,
        a\<lparr>ext_hdr_proto_id := 1, ext_hdr_nlri_identifier := 1,
          local_node_value := copy_into (local_node_value a) [0,0,253,232]\<rparr>,
        \<lparr>data = [1, 0,0,0,0,0,0,0,1, 1,0, 0,16, 2,0, 0,4, 0,0,253,232, 2,1, 0,4, 0,0,0,7],
         getp = 21\<rparr>)"
  by (simp add: bgp_mp_node_decode_def decoder_eval)

text \<open>
  The same loop in the link decoder has no \<^verbatim>\<open>break\<close>: on the same bytes it reads both
  sub-TLVs and stops at the end of the scope.
\<close>

lemma link_decode_reads_both_sub_tlvs:
  "bgp_mp_link_decode a
     \<lparr>data = [1, 0,0,0,0,0,0,0,1, 1,0, 0,16, 2,0, 0,4, 0,0,253,232, 2,1, 0,4, 0,0,0,7],
      getp = 0\<rparr> =
   Inr (BGP_ATTR_PARSE_PROCEED,
        a\<lparr>ext_hdr_proto_id := 1, ext_hdr_nlri_identifier := 1,
          local_node_value :=
            copy_into (copy_into (local_node_value a) [0,0,253,232]) [0,0,0,7]\<rparr>,
        \<lparr>data = [1, 0,0,0,0,0,0,0,1, 1,0, 0,16, 2,0, 0,4, 0,0,253,232, 2,1, 0,4, 0,0,0,7],
         getp = 29\<rparr>)"
  by (simp add: bgp_mp_link_decode_def decoder_eval)

subsection \<open>Remote Node Descriptors in the link decoder\<close>

text \<open>
  C5. The claim: under a Remote Node Descriptors TLV (257) every descriptor sub-TLV
  populates the remote node descriptor and the local one is left unchanged. The code does
  not do that for three of the four kinds. On the link NLRI with protocol 1, identifier 1
  and a Remote Node Descriptors TLV of length 8 that holds an Autonomous System sub-TLV
  with value 0, 0, 253, 232, \<^verbatim>\<open>bgp_mp_link_decode\<close> copies the value to
  \<^verbatim>\<open>local_node->value\<close> and leaves \<^verbatim>\<open>remote_node->value\<close> as it was.
\<close>

theorem link_decode_remote_descriptor_written_to_local_node:
  "bgp_mp_link_decode a
     \<lparr>data = [1, 0,0,0,0,0,0,0,1, 1,1, 0,8, 2,0, 0,4, 0,0,253,232], getp = 0\<rparr> =
   Inr (BGP_ATTR_PARSE_PROCEED,
        a\<lparr>ext_hdr_proto_id := 1, ext_hdr_nlri_identifier := 1,
          local_node_value := copy_into (local_node_value a) [0,0,253,232]\<rparr>,
        \<lparr>data = [1, 0,0,0,0,0,0,0,1, 1,1, 0,8, 2,0, 0,4, 0,0,253,232], getp = 21\<rparr>)"
  by (simp add: bgp_mp_link_decode_def decoder_eval)

text \<open>
  The fourth kind, the IGP Router-ID, is copied to \<^verbatim>\<open>remote_node->value\<close> in the same
  loop.
\<close>

lemma link_decode_remote_router_id:
  "bgp_mp_link_decode a
     \<lparr>data = [1, 0,0,0,0,0,0,0,1, 1,1, 0,8, 2,3, 0,4, 10,0,0,1], getp = 0\<rparr> =
   Inr (BGP_ATTR_PARSE_PROCEED,
        a\<lparr>ext_hdr_proto_id := 1, ext_hdr_nlri_identifier := 1,
          remote_node_value := copy_into (remote_node_value a) [10,0,0,1]\<rparr>,
        \<lparr>data = [1, 0,0,0,0,0,0,0,1, 1,1, 0,8, 2,3, 0,4, 10,0,0,1], getp = 21\<rparr>)"
  by (simp add: bgp_mp_link_decode_def decoder_eval)

subsection \<open>IP Reachability in the prefix decoder\<close>

text \<open>
  C3, as stated: decoding protocol 1, identifier 1 and an IP Reachability TLV of declared
  length 5 with the value bytes 24, 10, 0, 0 yields the prefix length 24 with the prefix
  bytes 10, 0, 0. On the code the decode of that buffer fails: the four value bytes are
  consumed as a second header, and no byte is left for the prefix octet. With a second
  header in place before the same value the decode fails as well: the octet 24 is taken
  as a number of bytes, and three are left.
\<close>

theorem prefix_decode_ip_reachability_counterexample:
  "bgp_mp_prefix_decode (args_initial ''peer'')
     \<lparr>data = [1, 0,0,0,0,0,0,0,1, 1,9, 0,5, 24,10,0,0], getp = 0\<rparr> = Inl TruncatedInput
   \<and> bgp_mp_prefix_decode (args_initial ''peer'')
     \<lparr>data = [1, 0,0,0,0,0,0,0,1, 1,9, 0,9, 1,9,0,5, 24,10,0,0], getp = 0\<rparr>
     = Inl TruncatedInput"
  by (simp add: bgp_mp_prefix_decode_def decoder_eval)

text \<open>
  C3, amended: when the top-level TLV of a prefix NLRI is IP Reachability Information, the
  decoder reads a second four-byte header after the top-level one, then the octet
  \<^verbatim>\<open>prefix\<close>, then as many bytes as that octet says (a count of bytes, not of bits); when
  the buffer holds them all it returns the proceed status with the octet in
  \<^verbatim>\<open>ipreach->prefix\<close> and the bytes at the start of \<^verbatim>\<open>ipreach->value\<close>, the read position
  after them.
\<close>

theorem prefix_decode_ip_reachability:
  assumes "getp s + 18 + unat (data s ! (getp s + 17)) \<le> length (data s)"
    and "top_tlv_type s = BGP_NLRI_TLV_IP_REACHABILITY_INFORMATION"
  shows "bgp_mp_prefix_decode a s =
    Inr (BGP_ATTR_PARSE_PROCEED,
         a\<lparr>ext_hdr_proto_id := data s ! getp s,
           ext_hdr_nlri_identifier := be_nat (take 8 (drop (getp s + 1) (data s))),
           ipreach_prefix := data s ! (getp s + 17),
           ipreach_value := copy_into (ipreach_value a)
              (take (unat (data s ! (getp s + 17))) (drop (getp s + 18) (data s)))\<rparr>,
         s\<lparr>getp := getp s + 18 + unat (data s ! (getp s + 17))\<rparr>)"
proof -
  obtain d p where s: "s = \<lparr>data = d, getp = p\<rparr>" by (cases s) simp
  from assms show ?thesis
    unfolding s bgp_mp_prefix_decode_def top_tlv_type_def
    by (simp add: stream_eval nlri_code_points add.commute)
qed

text \<open>
  C3, the amended statement at an input: with the second header 1, 9, 0, 4 and the value
  3, 10, 0, 0 the decoder stores the octet 3 and the three bytes 10, 0, 0.
\<close>

theorem prefix_decode_ip_reachability_witness:
  "bgp_mp_prefix_decode (args_initial ''peer'')
     \<lparr>data = [1, 0,0,0,0,0,0,0,1, 1,9, 0,8, 1,9,0,4, 3,10,0,0], getp = 0\<rparr> =
   Inr (BGP_ATTR_PARSE_PROCEED,
        (args_initial ''peer'')\<lparr>ext_hdr_proto_id := 1, ext_hdr_nlri_identifier := 1,
           ipreach_prefix := 3, ipreach_value := [10,0,0]\<rparr>,
        \<lparr>data = [1, 0,0,0,0,0,0,0,1, 1,9, 0,8, 1,9,0,4, 3,10,0,0], getp = 21\<rparr>)"
  using prefix_decode_ip_reachability
    [of "\<lparr>data = [1, 0,0,0,0,0,0,0,1, 1,9, 0,8, 1,9,0,4, 3,10,0,0], getp = 0\<rparr>"
        "args_initial ''peer''"]
  by (simp add: top_tlv_type_def be_nat_def nlri_code_points copy_into_def args_initial_def)

subsection \<open>Link Local/Remote Identifiers in the link decoder\<close>

text \<open>
  C6, as stated: decoding a link NLRI whose top-level TLV is of type 258 with declared
  length 4 and the value bytes 0, 5, 0, 9 sets the identifiers to local 5 and remote 9,
  no further header being consumed between the TLV header and the value. On the code the
  decode of that buffer fails: the four value bytes are consumed as a second header and
  the buffer ends before the identifiers.
\<close>

theorem link_decode_identifiers_counterexample:
  "bgp_mp_link_decode (args_initial ''peer'')
     \<lparr>data = [1, 0,0,0,0,0,0,0,1, 1,2, 0,4, 0,5,0,9], getp = 0\<rparr> = Inl TruncatedInput"
  by (simp add: bgp_mp_link_decode_def decoder_eval)

text \<open>
  C6, amended: when the top-level TLV of a link NLRI is of type 258, the decoder reads a
  second four-byte header (a type and a length, both ignored) after the top-level one and
  then the two 16-bit identifiers, local first; when the buffer holds these 21 bytes it
  returns the proceed status with the two identifiers stored.
\<close>

theorem link_decode_identifiers:
  assumes "getp s + 21 \<le> length (data s)"
    and "top_tlv_type s = BGP_NLRI_TLV_LINK_LOCAL_REMOTE_IDENTIFIERS"
  shows "bgp_mp_link_decode a s =
    Inr (BGP_ATTR_PARSE_PROCEED,
         a\<lparr>ext_hdr_proto_id := data s ! getp s,
           ext_hdr_nlri_identifier := be_nat (take 8 (drop (getp s + 1) (data s))),
           llri_local := be_nat (take 2 (drop (getp s + 17) (data s))),
           llri_remote := be_nat (take 2 (drop (getp s + 19) (data s)))\<rparr>,
         s\<lparr>getp := getp s + 21\<rparr>)"
proof -
  obtain d p where s: "s = \<lparr>data = d, getp = p\<rparr>" by (cases s) simp
  from assms show ?thesis
    unfolding s bgp_mp_link_decode_def top_tlv_type_def
    by (simp add: stream_eval nlri_code_points add.commute)
qed

text \<open>
  C6, the amended statement at an input: with the second header 1, 2, 0, 4 before the
  value 0, 5, 0, 9 the identifiers are 5 and 9.
\<close>

theorem link_decode_identifiers_witness:
  "bgp_mp_link_decode (args_initial ''peer'')
     \<lparr>data = [1, 0,0,0,0,0,0,0,1, 1,2, 0,8, 1,2,0,4, 0,5,0,9], getp = 0\<rparr> =
   Inr (BGP_ATTR_PARSE_PROCEED,
        (args_initial ''peer'')\<lparr>ext_hdr_proto_id := 1, ext_hdr_nlri_identifier := 1,
           llri_local := 5, llri_remote := 9\<rparr>,
        \<lparr>data = [1, 0,0,0,0,0,0,0,1, 1,2, 0,8, 1,2,0,4, 0,5,0,9], getp = 21\<rparr>)"
  using link_decode_identifiers
    [of "\<lparr>data = [1, 0,0,0,0,0,0,0,1, 1,2, 0,8, 1,2,0,4, 0,5,0,9], getp = 0\<rparr>"
        "args_initial ''peer''"]
  by (simp add: top_tlv_type_def be_nat_def nlri_code_points args_initial_def)

subsection \<open>The status of the node and the link decoder\<close>





subsection \<open>An unexpected top-level TLV in the prefix and in the node decoder\<close>


lemma zlog_put_node_value [simp]: "zlog (put_node_value n bs a) = zlog a"
  by (cases n) (simp_all add: put_node_value_def)


lemma node_descriptor_sub_tlv_returns:
  assumes "getp s + 12 \<le> length (data s)"
  shows "\<exists>a' s'. node_descriptor_sub_tlv rid len a s = Inr (a', s')"
proof -
  obtain d p where s: "s = \<lparr>data = d, getp = p\<rparr>" by (cases s) simp
  from assms show ?thesis
    unfolding s node_descriptor_sub_tlv_def
    by (simp add: stream_eval nlri_lengths)
qed



lemma peer_host_args_initial: "peer_host (args_initial h) = h"
  by (simp add: args_initial_def)





subsection \<open>The header of an attribute TLV, on the wire and as the host reads it\<close>

lemma be_nat_two:
  assumes "i + 2 \<le> length mem"
  shows "be_nat (take 2 (drop i mem)) = 256 * unat (mem ! i) + unat (mem ! (i + 1))"
proof -
  from assms have "drop i mem = mem ! i # mem ! (i + 1) # drop (i + 2) mem"
    by (simp add: Cons_nth_drop_Suc)
  then show ?thesis by (simp add: be_nat_def)
qed

lemma unat_u8_less: "unat (b :: u8) < 256"
  using unsigned_less [of b, where 'a = nat] by simp

lemma host16_wire:
  assumes "i + 2 \<le> length mem"
  shows "\<exists>v. host16 h mem i = Inr v \<and> ntohs h v = be_nat (take 2 (drop i mem))
           \<and> (v = 0 \<longleftrightarrow> be_nat (take 2 (drop i mem)) = 0)"
  using assms unat_u8_less [of "mem ! i"] unat_u8_less [of "mem ! (i + 1)"]
  by (auto simp: host16_def peek_def ntohs_def be_nat_two)

lemma header_wire:
  assumes "tlvh + 4 \<le> length mem"
  shows "\<exists>t l. nlri_type h mem tlvh = Inr t \<and> nlri_length h mem tlvh = Inr l
           \<and> ntohs h t = tlv_type_code mem tlvh \<and> ntohs h l = tlv_declared_length mem tlvh
           \<and> (l = 0 \<longleftrightarrow> tlv_declared_length mem tlvh = 0)"
proof -
  from assms have a: "tlvh + 2 \<le> length mem" and b: "(tlvh + 2) + 2 \<le> length mem" by simp_all
  from host16_wire [OF a, of h] obtain t where
    t: "host16 h mem tlvh = Inr t" "ntohs h t = be_nat (take 2 (drop tlvh mem))" by auto
  from host16_wire [OF b, of h] obtain l where
    l: "host16 h mem (tlvh + 2) = Inr l" "ntohs h l = be_nat (take 2 (drop (tlvh + 2) mem))"
    "l = 0 \<longleftrightarrow> be_nat (take 2 (drop (tlvh + 2) mem)) = 0" by auto
  from t l show ?thesis
    unfolding nlri_type_def nlri_length_def tlv_type_code_def tlv_declared_length_def
    by simp
qed

subsection \<open>An unknown TLV of length zero\<close>

lemma dispatch_unknown:
  assumes "nlri_type h mem tlvh = Inr t" and "ntohs h t \<notin> set registered_tlv_types"
  shows "dispatch h vty mem tlvh = show_vty_unknown_tlv h vty mem tlvh"
  using assms by (simp add: dispatch_def registered_tlv_types_def Let_def)

lemmas memory_eval = peek_def host16_def ntohs_def nlri_type_def nlri_length_def
  BGP_TLV_SIZE_def BGP_TLV_HDR_NEXT_def BGP_TLV_HDR_SIZE_def return_tlv_size_def
  print_line_def big_endian_host_def little_endian_host_def read_bytes_def top_value_def
  sizeof_mt_id_value_def sizeof_srlg_value_def sizeof_route_tag_value_def
  sizeof_extended_tag_value_def sizeof_float_def

lemmas unknown_eval = show_vty_unknown_tlv_def unknown_tlv_dump.simps dispatch_def
  attr_code_points Let_def

text \<open>Whatever the walk returns, it has only added lines to those printed before.\<close>

lemma walk_extends_output:
  "walk h vty mem limit tlvh sm acc = Inr (r, lines) \<Longrightarrow> \<exists>rest. lines = acc @ rest"
proof (induction h vty mem limit tlvh sm acc rule: walk.induct)
  case (1 h vty mem limit tlvh sm acc)
  show ?case
  proof (cases "sm < limit")
    case False
    with "1.prems" show ?thesis by (simp add: walk.simps)
  next
    case True
    with "1.prems" obtain ls n nxt where d: "dispatch h vty mem tlvh = Inr (ls, n)"
      and nx: "BGP_TLV_HDR_NEXT h mem tlvh = Inr nxt"
      and w: "walk h vty mem limit nxt ((sm + n) mod 65536) (acc @ ls) = Inr (r, lines)"
      by (subst (asm) walk.simps) (auto split: sum.splits)
    from "1.IH" [OF True d refl nx w] obtain rest where "lines = (acc @ ls) @ rest" ..
    then show ?thesis by simp
  qed
qed

text \<open>
  C8, as stated: every attribute TLV whose type code has no formatter and whose declared
  length is 0 is rendered by the walker as an "Unknown TLV" entry, and the running total
  advances by 4. That fails for the first TLV of an attribute, \<^verbatim>\<open>te->header\<close> itself: its
  length field is also the bound of the loop, so with the length 0 the test \<^verbatim>\<open>sum < 0\<close>
  fails before the first pass. For the attribute that is the single TLV 0, 9, 0, 0 (type 9,
  which has no formatter, length 0) the walker prints nothing but its own debug line and
  returns the total 0, on either host and with or without a terminal.
\<close>

theorem unknown_tlv_of_length_zero_counterexample:
  "tlv_type_code [0, 9, 0, 0] 0 = 9 \<and> 9 \<notin> set registered_tlv_types
   \<and> tlv_declared_length [0, 9, 0, 0] 0 = 0
   \<and> show_bgp_linkstate_print_detail big_endian_host True [0, 9, 0, 0]
       = Inr (Sum 0, [Zlog_debug ''BGP-LS: Show database TE detail'' []])
   \<and> show_bgp_linkstate_print_detail big_endian_host False [0, 9, 0, 0]
       = Inr (Sum 0, [Zlog_debug ''BGP-LS: Show database TE detail'' []])
   \<and> show_bgp_linkstate_print_detail little_endian_host True [0, 9, 0, 0]
       = Inr (Sum 0, [Zlog_debug ''BGP-LS: Show database TE detail'' []])
   \<and> show_bgp_linkstate_print_detail little_endian_host False [0, 9, 0, 0]
       = Inr (Sum 0, [Zlog_debug ''BGP-LS: Show database TE detail'' []])"
  by (simp add: show_bgp_linkstate_print_detail_def walk.simps memory_eval tlv_type_code_def
      tlv_declared_length_def be_nat_def registered_tlv_types_def attr_code_points)

text \<open>
  C8, amended: the statement holds for every TLV that the walker reaches, that is, when the
  loop test \<^verbatim>\<open>sum < te->header.nlri_length\<close> holds at its header. For every such TLV whose
  header lies in the memory, whose type code is none of the case labels of the walker's
  switch and whose declared length is 0: the walker hands it to \<^verbatim>\<open>show_vty_unknown_tlv\<close>,
  which prints the single line "Unknown TLV: [type(..), length(..)]" (to the terminal or to
  the log) and returns 4, the size of the header; the pass moves the header pointer by 4
  and adds 4 to the running total, a \<^verbatim>\<open>uint16_t\<close>. If the new total has reached the bound
  the walk returns it, together with the lines printed before and that line; and whatever
  the rest of the walk does, every output it returns has that line next after the lines
  printed before.
\<close>

theorem unknown_tlv_of_length_zero:
  assumes "tlvh + 4 \<le> length mem"
    and "tlv_type_code mem tlvh \<notin> set registered_tlv_types"
    and "tlv_declared_length mem tlvh = 0"
    and "sm < limit"
  shows "\<exists>t. nlri_type h mem tlvh = Inr t
     \<and> dispatch h vty mem tlvh =
         Inr ([print_line vty ''    Unknown TLV: [type(%#.2x), length(%#.2x)]\<newline>''
                 ''      Unknown TLV: [type(%#.2x), length(%#.2x)]'' [Num (int t), Num 0]], 4)
     \<and> walk h vty mem limit tlvh sm acc =
         walk h vty mem limit (tlvh + 4) ((sm + 4) mod 65536)
           (acc @ [print_line vty ''    Unknown TLV: [type(%#.2x), length(%#.2x)]\<newline>''
                     ''      Unknown TLV: [type(%#.2x), length(%#.2x)]'' [Num (int t), Num 0]])
     \<and> (limit \<le> (sm + 4) mod 65536 \<longrightarrow>
          walk h vty mem limit tlvh sm acc =
            Inr ((sm + 4) mod 65536,
                 acc @ [print_line vty ''    Unknown TLV: [type(%#.2x), length(%#.2x)]\<newline>''
                          ''      Unknown TLV: [type(%#.2x), length(%#.2x)]''
                          [Num (int t), Num 0]]))
     \<and> (\<forall>r lines. walk h vty mem limit tlvh sm acc = Inr (r, lines) \<longrightarrow>
          (\<exists>rest. lines =
             acc @ print_line vty ''    Unknown TLV: [type(%#.2x), length(%#.2x)]\<newline>''
                     ''      Unknown TLV: [type(%#.2x), length(%#.2x)]'' [Num (int t), Num 0]
                   # rest))"
proof -
  from header_wire [OF assms(1), of h] assms(3) obtain t where
    t: "nlri_type h mem tlvh = Inr t" and l: "nlri_length h mem tlvh = Inr 0"
    and tw: "ntohs h t = tlv_type_code mem tlvh" by auto
  let ?line = "print_line vty ''    Unknown TLV: [type(%#.2x), length(%#.2x)]\<newline>''
                 ''      Unknown TLV: [type(%#.2x), length(%#.2x)]'' [Num (int t), Num 0]"
  from tw assms(2) have unk: "ntohs h t \<notin> set registered_tlv_types" by simp
  have d: "dispatch h vty mem tlvh = Inr ([?line], 4)"
    unfolding dispatch_unknown [OF t unk]
    by (simp add: show_vty_unknown_tlv_def t l print_line_def BGP_TLV_HDR_SIZE_def)
  have n: "BGP_TLV_HDR_NEXT h mem tlvh = Inr (tlvh + 4)"
    by (simp add: BGP_TLV_HDR_NEXT_def BGP_TLV_SIZE_def l BGP_TLV_HDR_SIZE_def ntohs_def)
  have step: "walk h vty mem limit tlvh sm acc =
      walk h vty mem limit (tlvh + 4) ((sm + 4) mod 65536) (acc @ [?line])"
    using assms(4) by (subst walk.simps) (simp add: d n)
  have last: "limit \<le> (sm + 4) mod 65536 \<longrightarrow>
      walk h vty mem limit tlvh sm acc = Inr ((sm + 4) mod 65536, acc @ [?line])"
    unfolding step by (subst walk.simps) simp
  have out: "\<forall>r lines. walk h vty mem limit tlvh sm acc = Inr (r, lines) \<longrightarrow>
      (\<exists>rest. lines = acc @ ?line # rest)"
  proof (intro allI impI)
    fix r lines
    assume "walk h vty mem limit tlvh sm acc = Inr (r, lines)"
    then have "walk h vty mem limit (tlvh + 4) ((sm + 4) mod 65536) (acc @ [?line])
        = Inr (r, lines)" by (simp add: step)
    from walk_extends_output [OF this] obtain rest where "lines = (acc @ [?line]) @ rest" ..
    then show "\<exists>rest. lines = acc @ ?line # rest" by simp
  qed
  from t d step last out show ?thesis by blast
qed

text \<open>The first pass of the walk of C1 without a terminal: the pointer moves to 12, the total to 4.\<close>

lemma walk_step_unknown:
  "walk big_endian_host False [0,1, 0,8, 1,2,3,4,5,6,7,8, 0,2, 0,0] 8 0 0 acc =
   walk big_endian_host False [0,1, 0,8, 1,2,3,4,5,6,7,8, 0,2, 0,0] 8 12 4
     (acc @ [Zlog_debug ''      Unknown TLV: [type(%#.2x), length(%#.2x)]'' [Num 1, Num 8]])"
  by (subst walk.simps) (simp add: unknown_eval memory_eval)

text \<open>
  C8, the amended statement at an input: on a host where \<^verbatim>\<open>ntohs\<close> is the identity the
  attribute is an unknown TLV of type 1 and length 8 followed by the unknown TLV 0, 2, 0, 0
  (type 2, length 0). The walker reaches the second header, at offset 12, with the total 4
  and the bound 8: it prints the "Unknown TLV" line for it and returns the total 8.
\<close>

theorem unknown_tlv_of_length_zero_witness:
  "(12::nat) + 4 \<le> length [0,1, 0,8, 1,2,3,4,5,6,7,8, 0,2, 0,0 :: u8]
   \<and> tlv_type_code [0,1, 0,8, 1,2,3,4,5,6,7,8, 0,2, 0,0] 12 = 2
   \<and> 2 \<notin> set registered_tlv_types
   \<and> tlv_declared_length [0,1, 0,8, 1,2,3,4,5,6,7,8, 0,2, 0,0] 12 = 0
   \<and> (4::nat) < 8 \<and> (8::nat) \<le> (4 + 4) mod 65536
   \<and> walk big_endian_host False [0,1, 0,8, 1,2,3,4,5,6,7,8, 0,2, 0,0] 8 12 4
       [Zlog_debug ''BGP-LS: Show database TE detail'' [],
        Zlog_debug ''      Unknown TLV: [type(%#.2x), length(%#.2x)]'' [Num 1, Num 8]]
     = Inr (8, [Zlog_debug ''BGP-LS: Show database TE detail'' [],
                Zlog_debug ''      Unknown TLV: [type(%#.2x), length(%#.2x)]'' [Num 1, Num 8],
                Zlog_debug ''      Unknown TLV: [type(%#.2x), length(%#.2x)]'' [Num 2, Num 0]])
   \<and> show_bgp_linkstate_print_detail big_endian_host False
       [0,1, 0,8, 1,2,3,4,5,6,7,8, 0,2, 0,0]
     = Inr (Sum 8, [Zlog_debug ''BGP-LS: Show database TE detail'' [],
                Zlog_debug ''      Unknown TLV: [type(%#.2x), length(%#.2x)]'' [Num 1, Num 8],
                Zlog_debug ''      Unknown TLV: [type(%#.2x), length(%#.2x)]'' [Num 2, Num 0]])"
proof -
  let ?mem = "[0,1, 0,8, 1,2,3,4,5,6,7,8, 0,2, 0,0 :: u8]"
  let ?acc = "[Zlog_debug ''BGP-LS: Show database TE detail'' [],
               Zlog_debug ''      Unknown TLV: [type(%#.2x), length(%#.2x)]'' [Num 1, Num 8]]"
  have a1: "(12::nat) + 4 \<le> length ?mem" by simp
  have ty: "tlv_type_code ?mem 12 = 2" and len: "tlv_declared_length ?mem 12 = 0"
    by (simp_all add: tlv_type_code_def tlv_declared_length_def be_nat_def)
  have unk: "2 \<notin> set registered_tlv_types"
    by (simp add: registered_tlv_types_def attr_code_points)
  from ty unk have a2: "tlv_type_code ?mem 12 \<notin> set registered_tlv_types" by simp
  have a4: "(4::nat) < 8" by simp
  from unknown_tlv_of_length_zero [OF a1 a2 len a4, of big_endian_host False ?acc]
  have w: "walk big_endian_host False ?mem 8 12 4 ?acc =
      Inr (8, ?acc @ [Zlog_debug ''      Unknown TLV: [type(%#.2x), length(%#.2x)]'' [Num 2, Num 0]])"
    by (auto simp: memory_eval)
  have top: "show_bgp_linkstate_print_detail big_endian_host False ?mem =
      and_then (walk big_endian_host False ?mem 8 0 0 [Zlog_debug ''BGP-LS: Show database TE detail'' []])
        (\<lambda>(sm, lines). Inr (Sum sm, lines))"
    by (simp add: show_bgp_linkstate_print_detail_def memory_eval)
  have first: "walk big_endian_host False ?mem 8 0 0 [Zlog_debug ''BGP-LS: Show database TE detail'' []]
      = walk big_endian_host False ?mem 8 12 4 ?acc"
    by (simp add: walk_step_unknown)
  from a1 ty unk len w show ?thesis
    by (simp add: top first)
qed

subsection \<open>The Extended-Tag formatter\<close>

lemma value_lines_in_memory:
  assumes "\<forall>i\<in>set js. tlvh + 4 + w * i + w \<le> length mem"
  shows "value_lines mem tlvh w line js =
     Inr (map (\<lambda>i. line i (take w (drop (tlvh + 4 + w * i) mem))) js)"
  using assms
  by (induction js) (simp_all add: top_value_def read_bytes_def BGP_TLV_HDR_SIZE_def)

text \<open>
  The elements are read from the memory: with the header alone in the memory the formatter
  of a declared length of 20 leaves the memory at the first element, and the formatter of
  the unreserved bandwidths, which reads eight values whatever the length, leaves a memory
  of 8 bytes at the second value.
\<close>

lemma formatters_read_the_elements:
  "show_vty_bgp_nlri_tlv_extended_tag big_endian_host True [4, 130, 0, 20] 0
     = Inl (Read_outside 4)
   \<and> show_vty_bgp_nlri_tlv_extended_tag little_endian_host False
       [4, 130, 0, 20, 0,0,0,0,0,0,0,1, 0,0,0,0] 0
     = Inl (Read_outside 16)
   \<and> show_vty_unrsv_bw big_endian_host True [4, 67, 0, 4, 0,0,0,0] 0 = Inl (Read_outside 8)"
  by (simp add: show_vty_bgp_nlri_tlv_extended_tag_def show_vty_unrsv_bw_def memory_eval
      Let_def upt_rec)

text \<open>
  C7, as stated: an Extended-Tag TLV whose declared length is not a multiple of 8 makes the
  formatter fail with a malformed-array error; a declared length of 10 gives the error and
  not one rendered element. On the code the Extended-Tag TLV of declared length 10, its ten
  value bytes in the memory, is rendered as a count of 1 and one element, the first eight
  bytes of the value, and the formatter returns the size of the TLV, 14.
\<close>

theorem extended_tag_length_10_counterexample:
  "show_vty_bgp_nlri_tlv_extended_tag little_endian_host True
     [4, 130, 0, 10, 0,0,0,0,0,0,0,1, 0,2] 0 =
   Inr ([Vty_out ''  Extended Route Tag(s): %d\<newline>'' [Num 1],
         Vty_out ('' Value n'' @ [CHR 0xC2, CHR 0xB0] @ ''   #%d: %llu\<newline>'')
           [Num 0, Bytes [0,0,0,0,0,0,0,1]]],
        14)"
  by (simp add: show_vty_bgp_nlri_tlv_extended_tag_def memory_eval Let_def upt_rec)

text \<open>
  C7, amended: the Extended-Tag formatter does not reject a declared length; it has no
  malformed-array error. On a host with 8-byte pointers, for every Extended-Tag TLV of
  which the whole elements that the declared length announces lie in the memory (the
  declared length divided by 8, rounded down, elements of 8 bytes from the end of the
  header on), the formatter prints that count, then one line for each of these elements in
  order, with its index and its eight bytes, and returns the size of the TLV, header and
  declared length; the bytes of the remainder are not mentioned.
\<close>

theorem extended_tag_renders_whole_elements:
  assumes "sizeof_pointer h = 8"
    and "tlvh + 4 + 8 * (tlv_declared_length mem tlvh div 8) \<le> length mem"
  shows "show_vty_bgp_nlri_tlv_extended_tag h vty mem tlvh =
     Inr (print_line vty ''  Extended Route Tag(s): %d\<newline>'' ''  Extended Route Tag(s): %d''
            [Num (int (tlv_declared_length mem tlvh div 8))]
          # map (\<lambda>i. print_line vty
                   ('' Value n'' @ [CHR 0xC2, CHR 0xB0] @ ''   #%d: %llu\<newline>'')
                   (''  Value n'' @ [CHR 0xC2, CHR 0xB0] @ ''  #%d: %llu'')
                   [Num (int i), Bytes (take 8 (drop (tlvh + 4 + 8 * i) mem))])
              [0..<tlv_declared_length mem tlvh div 8],
          (4 + tlv_declared_length mem tlvh) mod 65536)"
proof -
  from assms(2) have hdr: "tlvh + 4 \<le> length mem" by simp
  from header_wire [OF hdr, of h] obtain l where
    l: "nlri_length h mem tlvh = Inr l" "ntohs h l = tlv_declared_length mem tlvh" by auto
  from assms(2) have
    "\<forall>i\<in>set [0..<tlv_declared_length mem tlvh div 8]. tlvh + 4 + 8 * i + 8 \<le> length mem"
    by auto
  from value_lines_in_memory [OF this] show ?thesis
    by (simp add: show_vty_bgp_nlri_tlv_extended_tag_def l assms(1) return_tlv_size_def
        BGP_TLV_SIZE_def BGP_TLV_HDR_SIZE_def sizeof_extended_tag_value_def Let_def)
qed

text \<open>
  C7, the amended statement at an input: a declared length of 20, the twenty bytes in the
  memory, gives the count 2 and the two whole elements; the last four bytes are not
  mentioned.
\<close>

theorem extended_tag_renders_whole_elements_witness:
  "sizeof_pointer little_endian_host = 8
   \<and> (0::nat) + 4 + 8 * (tlv_declared_length
          [4, 130, 0, 20, 0,0,0,0,0,0,0,1, 0,0,0,0,0,0,0,2, 9,9,9,9] 0 div 8)
       \<le> length [4, 130, 0, 20, 0,0,0,0,0,0,0,1, 0,0,0,0,0,0,0,2, 9,9,9,9 :: u8]
   \<and> tlv_declared_length [4, 130, 0, 20, 0,0,0,0,0,0,0,1, 0,0,0,0,0,0,0,2, 9,9,9,9] 0 = 20
   \<and> show_vty_bgp_nlri_tlv_extended_tag little_endian_host False
       [4, 130, 0, 20, 0,0,0,0,0,0,0,1, 0,0,0,0,0,0,0,2, 9,9,9,9] 0 =
     Inr ([Zlog_debug ''  Extended Route Tag(s): %d'' [Num 2],
           Zlog_debug (''  Value n'' @ [CHR 0xC2, CHR 0xB0] @ ''  #%d: %llu'')
             [Num 0, Bytes [0,0,0,0,0,0,0,1]],
           Zlog_debug (''  Value n'' @ [CHR 0xC2, CHR 0xB0] @ ''  #%d: %llu'')
             [Num 1, Bytes [0,0,0,0,0,0,0,2]]],
          24)"
  using extended_tag_renders_whole_elements
    [of little_endian_host 0 "[4, 130, 0, 20, 0,0,0,0,0,0,0,1, 0,0,0,0,0,0,0,2, 9,9,9,9]" False]
  by (simp add: tlv_declared_length_def be_nat_def print_line_def little_endian_host_def
      upt_rec)

subsection \<open>The walk and the declared end of the attribute\<close>

text \<open>
  C1. The claim: the walker stops as soon as its running total reaches the declared length
  of the attribute, no formatter it dispatches reads a byte at or past that end, and after
  each rendered TLV the running total is the offset of the next header inspected. The code
  does not do that when a TLV of unknown type has a value. The attribute below is one
  unknown TLV (type 1) of declared length 8, on a host where \<^verbatim>\<open>ntohs\<close> is the identity.
  In a memory of 12 bytes (the header and the 8 declared bytes): after the first pass the
  header pointer is at 12 and the running total at 4, so the loop goes on and reads a
  header at offset 12, outside the memory. With four more bytes in the memory (an unknown
  TLV of type 2 and length 0) those bytes, past the declared end, are rendered as a second
  TLV.
\<close>

theorem walk_passes_declared_end:
  "show_bgp_linkstate_print_detail big_endian_host True [0,1, 0,8, 1,2,3,4,5,6,7,8]
     = Inl (Read_outside 12)
   \<and> show_bgp_linkstate_print_detail big_endian_host True
       [0,1, 0,8, 1,2,3,4,5,6,7,8, 0,2, 0,0]
     = Inr (Sum 8,
        [Zlog_debug ''BGP-LS: Show database TE detail'' [],
         Vty_out ''    Unknown TLV: [type(%#.2x), length(%#.2x)]\<newline>'' [Num 1, Num 8],
         Vty_out ''       Dump: [00]'' [],
         Vty_out '' %#.2x'' [Byte 0], Vty_out '' %#.2x'' [Byte 1],
         Vty_out '' %#.2x'' [Byte 0], Vty_out '' %#.2x'' [Byte 8],
         Vty_out '' %#.2x'' [Byte 1], Vty_out '' %#.2x'' [Byte 2],
         Vty_out '' %#.2x'' [Byte 3], Vty_out '' %#.2x'' [Byte 4],
         Vty_out ''\<newline>             [%.2x]'' [Num 8],
         Vty_out ''\<newline>'' [],
         Vty_out ''    Unknown TLV: [type(%#.2x), length(%#.2x)]\<newline>'' [Num 2, Num 0]])"
  by (simp add: show_bgp_linkstate_print_detail_def walk.simps unknown_eval memory_eval)

text \<open>
  On a little-endian host the bound of the walk and the number of bytes dumped are the
  length field as the host reads it, 2048 for the bytes 0, 8: the walk leaves the memory at
  the same offset, in the dump when there is a terminal and at the next header when there
  is none.
\<close>

lemma walk_little_endian_host:
  "show_bgp_linkstate_print_detail little_endian_host True [0,1, 0,8, 1,2,3,4,5,6,7,8]
     = Inl (Read_outside 12)
   \<and> show_bgp_linkstate_print_detail little_endian_host False [0,1, 0,8, 1,2,3,4,5,6,7,8]
     = Inl (Read_outside 12)"
  by (simp add: show_bgp_linkstate_print_detail_def walk.simps unknown_eval memory_eval)

text \<open>
  Every formatter of a registered type, when it returns, returns the size of the TLV,
  header and value, which is also what the header pointer moves by; the formatter of the
  unknown TLVs returns the size of the header whatever the length.
\<close>

lemmas formatter_defs =
  show_vty_node_flag_bits_def show_vty_opaque_node_properties_def show_vty_node_name_def
  show_vty_is_is_area_identifier_def show_vty_ipv4_router_id_of_local_node_def
  show_vty_ipv6_router_id_of_local_node_def show_vty_ipv4_router_id_of_remote_node_def
  show_vty_ipv6_router_id_of_remote_node_def show_vty_admin_grp_color_def
  show_vty_max_link_bw_def show_vty_max_rsv_bw_def show_vty_te_metric_def
  show_vty_link_protection_type_def show_vty_mpls_protocol_mask_def
  show_vty_igp_metric_def show_vty_opaque_link_attribute_def
  show_vty_link_name_attribute_def show_vty_bgp_nlri_tlv_igp_flags_def
  show_vty_bgp_nlri_tlv_prefix_metric_def show_bgp_nlri_tlv_opaque_prefix_attribute_def
  show_vty_unrsv_bw_def show_bgp_nlri_tlv_ospf_fowarding_adress_def
  show_vty_multi_topology_identifier_def show_vty_shared_risk_link_group_def
  show_vty_bgp_nlri_tlv_route_tag_def show_vty_bgp_nlri_tlv_extended_tag_def

lemma return_tlv_size_Inr:
  assumes "return_tlv_size h mem tlvh ls = Inr (lines, n)"
  shows "n = (4 + tlv_declared_length mem tlvh) mod 65536"
proof -
  from assms obtain l where l: "nlri_length h mem tlvh = Inr l"
    and n: "n = (4 + ntohs h l) mod 65536"
    by (auto simp: return_tlv_size_def BGP_TLV_SIZE_def BGP_TLV_HDR_SIZE_def and_then_Inr)
  from l have "tlvh + 4 \<le> length mem"
    by (auto simp: nlri_length_def dest: host16_Inr)
  from header_wire [OF this, of h] l have "ntohs h l = tlv_declared_length mem tlvh" by auto
  with n show ?thesis by simp
qed

lemma registered_formatter_returns_tlv_size:
  assumes "dispatch h vty mem tlvh = Inr (lines, n)"
    and "tlv_type_code mem tlvh \<in> set registered_tlv_types"
  shows "n = (4 + tlv_declared_length mem tlvh) mod 65536"
proof -
  from assms(1) obtain t where t: "nlri_type h mem tlvh = Inr t"
    by (auto simp: dispatch_def and_then_Inr)
  then have "tlvh + 2 \<le> length mem"
    by (auto simp: nlri_type_def dest: host16_Inr)
  from host16_wire [OF this, of h] t have tw: "ntohs h t = tlv_type_code mem tlvh"
    by (auto simp: nlri_type_def tlv_type_code_def)
  from assms(2) tw have reg: "ntohs h t \<in> set registered_tlv_types" by simp
  from assms(1) reg show ?thesis
    by (auto simp: dispatch_def t registered_tlv_types_def formatter_defs and_then_Inr Let_def
        attr_code_points split: if_splits dest: return_tlv_size_Inr)
qed

text \<open>
  A formatter of a registered type does return when the memory holds what it reads: 32
  bytes after the header are enough for the formatters of a single value and of the eight
  unreserved bandwidths, and eight times the declared length for those of the lists. The
  administrative group, a value of four bytes, is an instance.
\<close>

lemma list_formatter_elements:
  assumes "tlvh + 4 + 8 * len \<le> length mem" and "w \<le> 8"
  shows "\<forall>i\<in>set [0..<len div ps]. tlvh + 4 + w * i + w \<le> length mem"
proof
  fix i assume "i \<in> set [0..<len div ps]"
  then have "i < len div ps" by simp
  moreover have "len div ps \<le> len" by (rule div_le_dividend)
  ultimately have "Suc i \<le> len" by linarith
  then have "w * Suc i \<le> 8 * len" using assms(2) by (rule_tac mult_le_mono) simp_all
  with assms(1) show "tlvh + 4 + w * i + w \<le> length mem" by simp
qed

lemma registered_formatter_returns:
  assumes "tlvh + 36 \<le> length mem"
    and "tlvh + 4 + 8 * tlv_declared_length mem tlvh \<le> length mem"
    and "tlv_type_code mem tlvh \<in> set registered_tlv_types"
  shows "\<exists>lines. dispatch h vty mem tlvh =
           Inr (lines, (4 + tlv_declared_length mem tlvh) mod 65536)"
proof -
  from assms(1) have hdr: "tlvh + 4 \<le> length mem" by simp
  from header_wire [OF hdr, of h] obtain t l where
    t: "nlri_type h mem tlvh = Inr t" "ntohs h t = tlv_type_code mem tlvh"
    and l: "nlri_length h mem tlvh = Inr l" "ntohs h l = tlv_declared_length mem tlvh"
    by auto
  have rd: "w \<le> 16 \<Longrightarrow> i * w + w \<le> 32 \<Longrightarrow>
      top_value mem tlvh w i = Inr (take w (drop (tlvh + 4 + w * i) mem))" for w i
    using assms(1) by (simp add: top_value_def read_bytes_def BGP_TLV_HDR_SIZE_def mult.commute)
  have ls: "w \<le> 8 \<Longrightarrow>
      value_lines mem tlvh w line [0..<tlv_declared_length mem tlvh div ps] =
      Inr (map (\<lambda>i. line i (take w (drop (tlvh + 4 + w * i) mem)))
             [0..<tlv_declared_length mem tlvh div ps])" for w line ps
    by (rule value_lines_in_memory) (rule list_formatter_elements [OF assms(2)])
  from assms(3) show ?thesis
    by (auto simp: dispatch_def t l registered_tlv_types_def formatter_defs rd ls
        return_tlv_size_def BGP_TLV_SIZE_def BGP_TLV_HDR_SIZE_def Let_def attr_code_points
        sizeof_mt_id_value_def sizeof_srlg_value_def sizeof_route_tag_value_def
        sizeof_extended_tag_value_def sizeof_float_def)
qed

lemma registered_formatter_at_an_input:
  "dispatch big_endian_host True [4, 64, 0, 4, 0,0,0,255] 0 =
     Inr ([Vty_out ''    Administrative Group: 0x%x\<newline>'' [Bytes [0,0,0,255]]], 8)"
  by (simp add: dispatch_def show_vty_admin_grp_color_def attr_code_points memory_eval Let_def)

lemma unknown_formatter_returns_header_size:
  assumes "show_vty_unknown_tlv h vty mem tlvh = Inr (lines, n)"
  shows "n = 4"
  using assms
  by (auto simp: show_vty_unknown_tlv_def and_then_Inr BGP_TLV_HDR_SIZE_def split: if_splits)

subsection \<open>The texts and the ring of \<^verbatim>\<open>lib_isis_format_id\<close>\<close>

lemma snprintf_length:
  "off + sz \<le> length buf \<Longrightarrow> length (snprintf buf off sz txt) = length buf"
  by (auto simp: snprintf_def Let_def min_def)

lemma c_string_prefix:
  "NUL \<notin> set xs \<Longrightarrow> c_string (xs @ NUL # ys) = xs"
  by (induction xs) (auto simp: c_string_def)

lemma c_string_snprintf:
  assumes "0 < sz" and "off \<le> length buf" and "NUL \<notin> set (take off buf)" and "NUL \<notin> set txt"
  shows "c_string (snprintf buf off sz txt) = take off buf @ take (sz - 1) txt"
proof -
  have "NUL \<notin> set (take off buf @ take (sz - 1) txt)"
    using assms(3,4) by (auto dest: in_set_takeD)
  then have "c_string ((take off buf @ take (sz - 1) txt) @ NUL # drop (off + length (take (sz - 1) txt @ [NUL])) buf)
      = take off buf @ take (sz - 1) txt"
    by (rule c_string_prefix)
  with assms(1) show ?thesis by (simp add: snprintf_def Let_def)
qed

lemma take_snprintf:
  assumes "0 < sz" and "off \<le> length buf" and "length txt < sz"
  shows "take (off + length txt) (snprintf buf off sz txt) = take off buf @ txt"
  using assms by (simp add: snprintf_def Let_def)

lemma hex_digit_not_NUL: "hex_digit n \<noteq> NUL"
proof -
  have "hex_digit n \<in> set ''0123456789abcdef''"
    unfolding hex_digit_def by (rule nth_mem) simp
  then show ?thesis by (auto simp: NUL_def)
qed

lemma hex02_facts [simp]: "length (hex02 b) = 2" "NUL \<notin> set (hex02 b)"
  using hex_digit_not_NUL [of "unat b div 16"] hex_digit_not_NUL [of "unat b mod 16"]
  by (auto simp: hex02_def)

lemma NUL_not_dot [simp]: "NUL \<noteq> CHR ''.''" "NUL \<noteq> CHR ''-''"
  by (simp_all add: NUL_def)

lemma next_buf_mod:
  assumes "c < FORMAT_BUF_COUNT"
  shows "(if c + 1 \<ge> FORMAT_BUF_COUNT then 0 else c + 1) = (c + 1) mod FORMAT_BUF_COUNT"
proof (cases "c + 1 \<ge> FORMAT_BUF_COUNT")
  case True
  with assms have "c + 1 = FORMAT_BUF_COUNT" by simp
  then show ?thesis by simp
next
  case False
  then show ?thesis by simp
qed

lemma ring_ok_buffer:
  assumes "ring_ok st" and "k < FORMAT_BUF_COUNT"
  shows "length (buf_ring st ! k) = FORMAT_ID_SIZE"
  using assms by (simp add: ring_ok_def list_all_length)

lemma ring_ok_update:
  assumes "ring_ok st" and "k < FORMAT_BUF_COUNT" and "length B = FORMAT_ID_SIZE"
  shows "ring_ok (st\<lparr>buf_ring := (buf_ring st)[k := B], cur_buf := k\<rparr>)"
  using assms by (auto simp: ring_ok_def list_all_length nth_list_update)

text \<open>The three texts the function can leave in the buffer it returns.\<close>

lemma format_id_null:
  assumes "ring_ok st"
  shows "lib_isis_format_id None len st =
     Inr ((cur_buf st + 1) mod FORMAT_BUF_COUNT,
          st\<lparr>buf_ring := (buf_ring st)[(cur_buf st + 1) mod FORMAT_BUF_COUNT :=
                 snprintf (buf_ring st ! ((cur_buf st + 1) mod FORMAT_BUF_COUNT)) 0 FORMAT_ID_SIZE
                   ''unknown''],
             cur_buf := (cur_buf st + 1) mod FORMAT_BUF_COUNT\<rparr>)"
proof -
  from assms have cur: "(if cur_buf st + 1 \<ge> FORMAT_BUF_COUNT then 0 else cur_buf st + 1)
      = (cur_buf st + 1) mod FORMAT_BUF_COUNT"
    by (intro next_buf_mod) (simp add: ring_ok_def)
  show ?thesis unfolding lib_isis_format_id_def Let_def cur by simp
qed

lemma format_id_short:
  assumes "ring_ok st" and "len < 6"
  shows "lib_isis_format_id (Some bs) len st =
     Inr ((cur_buf st + 1) mod FORMAT_BUF_COUNT,
          st\<lparr>buf_ring := (buf_ring st)[(cur_buf st + 1) mod FORMAT_BUF_COUNT :=
                 snprintf (buf_ring st ! ((cur_buf st + 1) mod FORMAT_BUF_COUNT)) 0 FORMAT_ID_SIZE
                   ''Short ID''],
             cur_buf := (cur_buf st + 1) mod FORMAT_BUF_COUNT\<rparr>)"
proof -
  from assms have cur: "(if cur_buf st + 1 \<ge> FORMAT_BUF_COUNT then 0 else cur_buf st + 1)
      = (cur_buf st + 1) mod FORMAT_BUF_COUNT"
    by (intro next_buf_mod) (simp add: ring_ok_def)
  show ?thesis unfolding lib_isis_format_id_def Let_def cur using assms(2) by simp
qed

lemma six_bytes_text_facts [simp]:
  "length (six_bytes_text bs) = 14" "NUL \<notin> set (six_bytes_text bs)"
  by (simp_all add: six_bytes_text_def)

lemma format_id_long:
  assumes "ring_ok st" and "6 \<le> len" and "min len 8 \<le> length bs"
  shows "lib_isis_format_id (Some bs) len st =
     Inr ((cur_buf st + 1) mod FORMAT_BUF_COUNT,
          st\<lparr>buf_ring := (buf_ring st)[(cur_buf st + 1) mod FORMAT_BUF_COUNT :=
                 (let b1 = snprintf (buf_ring st ! ((cur_buf st + 1) mod FORMAT_BUF_COUNT)) 0
                             FORMAT_ID_SIZE (six_bytes_text bs);
                      b2 = (if 6 < len then snprintf b1 14 (FORMAT_ID_SIZE - 14)
                                                (''.'' @ hex02 (bs ! 6)) else b1)
                  in if 7 < len then snprintf b2 17 (FORMAT_ID_SIZE - 17) (''-'' @ hex02 (bs ! 7))
                     else b2)],
             cur_buf := (cur_buf st + 1) mod FORMAT_BUF_COUNT\<rparr>)"
proof -
  from assms(2,3) have n6: "6 \<le> length bs" and n7: "6 < len \<Longrightarrow> 7 \<le> length bs"
    and n8: "7 < len \<Longrightarrow> 8 \<le> length bs"
    by (simp_all add: min_def split: if_splits)
  from n6 have p: "peek bs 0 = Inr (bs ! 0)" "peek bs 1 = Inr (bs ! 1)"
    "peek bs 2 = Inr (bs ! 2)" "peek bs 3 = Inr (bs ! 3)" "peek bs 4 = Inr (bs ! 4)"
    "peek bs 5 = Inr (bs ! 5)"
    by (auto simp: peek_def)
  from n7 have p6: "6 < len \<Longrightarrow> peek bs 6 = Inr (bs ! 6)"
    by (auto simp: peek_def)
  from n8 have p7: "7 < len \<Longrightarrow> peek bs 7 = Inr (bs ! 7)"
    by (auto simp: peek_def)
  from assms have cur: "(if cur_buf st + 1 \<ge> FORMAT_BUF_COUNT then 0 else cur_buf st + 1)
      = (cur_buf st + 1) mod FORMAT_BUF_COUNT"
    by (intro next_buf_mod) (simp add: ring_ok_def)
  show ?thesis
    unfolding lib_isis_format_id_def Let_def cur six_bytes_text_def
    using assms(2) p p6 p7 by simp
qed

lemma long_buffer_text:
  assumes "length rv = FORMAT_ID_SIZE"
  shows "c_string
     (let b1 = snprintf rv 0 FORMAT_ID_SIZE (six_bytes_text bs);
          b2 = (if 6 < len then snprintf b1 14 (FORMAT_ID_SIZE - 14) (''.'' @ hex02 (bs ! 6))
                else b1)
      in if 7 < (len :: nat) then snprintf b2 17 (FORMAT_ID_SIZE - 17) (''-'' @ hex02 (bs ! 7))
         else b2)
     = six_bytes_text bs @ (if 6 < len then ''.'' @ hex02 (bs ! 6) else [])
       @ (if 7 < len then ''-'' @ hex02 (bs ! 7) else [])"
    (is "c_string ?B = _")
  and "length
     (let b1 = snprintf rv 0 FORMAT_ID_SIZE (six_bytes_text bs);
          b2 = (if 6 < len then snprintf b1 14 (FORMAT_ID_SIZE - 14) (''.'' @ hex02 (bs ! 6))
                else b1)
      in if 7 < (len :: nat) then snprintf b2 17 (FORMAT_ID_SIZE - 17) (''-'' @ hex02 (bs ! 7))
         else b2) = FORMAT_ID_SIZE"
proof -
  define b1 where "b1 = snprintf rv 0 FORMAT_ID_SIZE (six_bytes_text bs)"
  define b2 where "b2 = snprintf b1 14 (FORMAT_ID_SIZE - 14) (''.'' @ hex02 (bs ! 6))"
  define b3 where "b3 = snprintf b2 17 (FORMAT_ID_SIZE - 17) (''-'' @ hex02 (bs ! 7))"
  have l1: "length b1 = 21"
    using assms by (simp add: b1_def snprintf_length FORMAT_ID_SIZE_def)
  have l2: "length b2 = 21"
    using l1 by (simp add: b2_def snprintf_length FORMAT_ID_SIZE_def)
  have l3: "length b3 = 21"
    using l2 by (simp add: b3_def snprintf_length FORMAT_ID_SIZE_def)
  have t1: "take 14 b1 = six_bytes_text bs"
    using take_snprintf [of FORMAT_ID_SIZE 0 rv "six_bytes_text bs"]
    by (simp add: b1_def FORMAT_ID_SIZE_def)
  have c1: "c_string b1 = six_bytes_text bs"
    using c_string_snprintf [of FORMAT_ID_SIZE 0 rv "six_bytes_text bs"]
    by (simp add: b1_def FORMAT_ID_SIZE_def)
  have t2: "take 17 b2 = six_bytes_text bs @ ''.'' @ hex02 (bs ! 6)"
    using take_snprintf [of "FORMAT_ID_SIZE - 14" 14 b1 "''.'' @ hex02 (bs ! 6)"] l1 t1
    by (simp add: b2_def FORMAT_ID_SIZE_def)
  have c2: "c_string b2 = six_bytes_text bs @ ''.'' @ hex02 (bs ! 6)"
    using c_string_snprintf [of "FORMAT_ID_SIZE - 14" 14 b1 "''.'' @ hex02 (bs ! 6)"] l1 t1
    by (simp add: b2_def FORMAT_ID_SIZE_def)
  have c3: "c_string b3 = six_bytes_text bs @ ''.'' @ hex02 (bs ! 6) @ ''-'' @ hex02 (bs ! 7)"
    using c_string_snprintf [of "FORMAT_ID_SIZE - 17" 17 b2 "''-'' @ hex02 (bs ! 7)"] l2 t2
    by (simp add: b3_def FORMAT_ID_SIZE_def)
  show "c_string ?B = six_bytes_text bs @ (if 6 < len then ''.'' @ hex02 (bs ! 6) else [])
       @ (if 7 < len then ''-'' @ hex02 (bs ! 7) else [])"
    using c1 c2 c3 by (auto simp: Let_def b1_def b2_def b3_def)
  show "length ?B = FORMAT_ID_SIZE"
    using l1 l2 l3 by (auto simp: Let_def b1_def b2_def b3_def FORMAT_ID_SIZE_def)
qed

lemma format_id_reads:
  assumes "lib_isis_format_id (Some bs) len st = Inr r" and "6 \<le> len"
  shows "min len 8 \<le> length bs"
proof -
  from assms have "\<exists>b. peek bs 5 = Inr b"
    and "6 < len \<longrightarrow> (\<exists>b. peek bs 6 = Inr b)"
    and "7 < len \<longrightarrow> (\<exists>b. peek bs 7 = Inr b)"
    by (auto simp: lib_isis_format_id_def Let_def and_then_Inr split: if_splits)
  then have "5 < length bs" and "6 < len \<longrightarrow> 6 < length bs" and "7 < len \<longrightarrow> 7 < length bs"
    by (auto dest: peek_Inr)
  then show ?thesis by (auto simp: min_def)
qed

lemma format_id_rotation:
  assumes ok: "ring_ok st" and call: "lib_isis_format_id ident len st = Inr (rv, st')"
  shows "rv = (cur_buf st + 1) mod FORMAT_BUF_COUNT \<and> cur_buf st' = rv \<and> ring_ok st'
         \<and> (\<forall>k. k \<noteq> rv \<longrightarrow> buf_ring st' ! k = buf_ring st ! k)"
proof -
  let ?c = "(cur_buf st + 1) mod FORMAT_BUF_COUNT"
  have c: "?c < FORMAT_BUF_COUNT" by (simp add: FORMAT_BUF_COUNT_def)
  from ok c have lrv: "length (buf_ring st ! ?c) = FORMAT_ID_SIZE" by (rule ring_ok_buffer)
  have "\<exists>B. length B = FORMAT_ID_SIZE
      \<and> lib_isis_format_id ident len st = Inr (?c, st\<lparr>buf_ring := (buf_ring st)[?c := B], cur_buf := ?c\<rparr>)"
  proof (cases ident)
    case None
    have "length (snprintf (buf_ring st ! ?c) 0 FORMAT_ID_SIZE ''unknown'') = FORMAT_ID_SIZE"
      using lrv by (simp add: snprintf_length)
    with None format_id_null [OF ok, of len] show ?thesis by blast
  next
    case (Some bs)
    show ?thesis
    proof (cases "len < 6")
      case True
      have "length (snprintf (buf_ring st ! ?c) 0 FORMAT_ID_SIZE ''Short ID'') = FORMAT_ID_SIZE"
        using lrv by (simp add: snprintf_length)
      with Some format_id_short [OF ok True, of bs] show ?thesis by blast
    next
      case False
      then have six: "6 \<le> len" by simp
      from call Some six have "min len 8 \<le> length bs" by (auto intro: format_id_reads)
      from format_id_long [OF ok six this] long_buffer_text(2) [OF lrv, of bs len] Some
      show ?thesis by blast
    qed
  qed
  then obtain B where B: "length B = FORMAT_ID_SIZE"
    and eq: "lib_isis_format_id ident len st
       = Inr (?c, st\<lparr>buf_ring := (buf_ring st)[?c := B], cur_buf := ?c\<rparr>)" by blast
  from eq call have rv: "rv = ?c" and st': "st' = st\<lparr>buf_ring := (buf_ring st)[?c := B], cur_buf := ?c\<rparr>"
    by simp_all
  from ok c B have "ring_ok st'" unfolding st' by (rule ring_ok_update)
  with rv st' show ?thesis by simp
qed

lemma rotate_four:
  fixes rv r2 r3 r4 r5 :: nat
  assumes "rv < 4" and "r2 = (rv + 1) mod 4" and "r3 = (r2 + 1) mod 4"
    and "r4 = (r3 + 1) mod 4" and "r5 = (r4 + 1) mod 4"
  shows "r2 \<noteq> rv \<and> r3 \<noteq> rv \<and> r4 \<noteq> rv \<and> r5 = rv"
proof -
  from assms(1) have "rv = 0 \<or> rv = 1 \<or> rv = 2 \<or> rv = 3" by arith
  with assms(2-) show ?thesis by auto
qed

lemma four_calls_later:
  assumes ok: "ring_ok st1" and c1: "cur_buf st1 = rv" and rv: "rv < FORMAT_BUF_COUNT"
    and c2: "lib_isis_format_id i2 l2 st1 = Inr (r2, st2)"
    and c3: "lib_isis_format_id i3 l3 st2 = Inr (r3, st3)"
    and c4: "lib_isis_format_id i4 l4 st3 = Inr (r4, st4)"
    and c5: "lib_isis_format_id i5 l5 st4 = Inr (r5, st5)"
  shows "r2 \<noteq> rv \<and> r3 \<noteq> rv \<and> r4 \<noteq> rv \<and> buf_ring st4 ! rv = buf_ring st1 ! rv
         \<and> ring_ok st4 \<and> r5 = rv"
proof -
  from format_id_rotation [OF ok c2] c1 have r2: "r2 = (rv + 1) mod 4"
    and cur2: "cur_buf st2 = r2" and ok2: "ring_ok st2"
    and o2: "\<forall>k. k \<noteq> r2 \<longrightarrow> buf_ring st2 ! k = buf_ring st1 ! k"
    by (simp_all add: FORMAT_BUF_COUNT_def)
  from format_id_rotation [OF ok2 c3] cur2 have r3: "r3 = (r2 + 1) mod 4"
    and cur3: "cur_buf st3 = r3" and ok3: "ring_ok st3"
    and o3: "\<forall>k. k \<noteq> r3 \<longrightarrow> buf_ring st3 ! k = buf_ring st2 ! k"
    by (simp_all add: FORMAT_BUF_COUNT_def)
  from format_id_rotation [OF ok3 c4] cur3 have r4: "r4 = (r3 + 1) mod 4"
    and cur4: "cur_buf st4 = r4" and ok4: "ring_ok st4"
    and o4: "\<forall>k. k \<noteq> r4 \<longrightarrow> buf_ring st4 ! k = buf_ring st3 ! k"
    by (simp_all add: FORMAT_BUF_COUNT_def)
  from format_id_rotation [OF ok4 c5] cur4 have r5: "r5 = (r4 + 1) mod 4"
    by (simp add: FORMAT_BUF_COUNT_def)
  from rv have "rv < 4" by (simp add: FORMAT_BUF_COUNT_def)
  from rotate_four [OF this r2 r3 r4 r5]
  have ne: "r2 \<noteq> rv" "r3 \<noteq> rv" "r4 \<noteq> rv" and same: "r5 = rv" by simp_all
  from o4 ne(3) have "buf_ring st4 ! rv = buf_ring st3 ! rv" by auto
  also from o3 ne(2) have "\<dots> = buf_ring st2 ! rv" by auto
  also from o2 ne(1) have "\<dots> = buf_ring st1 ! rv" by auto
  finally show ?thesis using ne same ok4 by simp
qed

text \<open>
  C10. With the static variables as every call finds them (four buffers of 21 characters,
  \<^verbatim>\<open>cur_buf\<close> below 4), \<^verbatim>\<open>lib_isis_format_id\<close> returns the buffer after the current one
  in the ring, and the string in it is: "unknown" when the pointer is null; "Short ID" when
  it is not null and \<open>len < 6\<close>; otherwise, the identifier holding the bytes the function
  reads, the first six bytes as three groups of four hexadecimal digits separated by dots,
  followed by a dot and the seventh byte when \<open>len > 6\<close> and by a hyphen and the eighth
  byte when \<open>len > 7\<close>. A call changes no other buffer than the one it returns; of the
  next four calls the first three return other buffers, so that the string stays as it
  was, and the fourth returns the same buffer again and writes its own text there.
\<close>

theorem lib_isis_format_id_texts_and_ring:
  assumes "ring_ok st"
  shows
    "(\<exists>st'. lib_isis_format_id None len st = Inr ((cur_buf st + 1) mod FORMAT_BUF_COUNT, st')
         \<and> c_string (buf_ring st' ! ((cur_buf st + 1) mod FORMAT_BUF_COUNT)) = ''unknown'')
   \<and> (len < 6 \<longrightarrow>
        (\<exists>st'. lib_isis_format_id (Some bs) len st
                 = Inr ((cur_buf st + 1) mod FORMAT_BUF_COUNT, st')
           \<and> c_string (buf_ring st' ! ((cur_buf st + 1) mod FORMAT_BUF_COUNT)) = ''Short ID''))
   \<and> (6 \<le> len \<and> min len 8 \<le> length bs \<longrightarrow>
        (\<exists>st'. lib_isis_format_id (Some bs) len st
                 = Inr ((cur_buf st + 1) mod FORMAT_BUF_COUNT, st')
           \<and> c_string (buf_ring st' ! ((cur_buf st + 1) mod FORMAT_BUF_COUNT))
               = hex02 (bs ! 0) @ hex02 (bs ! 1) @ ''.'' @ hex02 (bs ! 2) @ hex02 (bs ! 3)
                 @ ''.'' @ hex02 (bs ! 4) @ hex02 (bs ! 5)
                 @ (if 6 < len then ''.'' @ hex02 (bs ! 6) else [])
                 @ (if 7 < len then ''-'' @ hex02 (bs ! 7) else [])))
   \<and> (\<forall>ident rv st1. lib_isis_format_id ident len st = Inr (rv, st1) \<longrightarrow>
        rv = (cur_buf st + 1) mod FORMAT_BUF_COUNT \<and> ring_ok st1
        \<and> (\<forall>k. k \<noteq> rv \<longrightarrow> buf_ring st1 ! k = buf_ring st ! k)
        \<and> (\<forall>i2 l2 r2 st2 i3 l3 r3 st3 i4 l4 r4 st4 i5 l5 r5 st5.
              lib_isis_format_id i2 l2 st1 = Inr (r2, st2)
              \<and> lib_isis_format_id i3 l3 st2 = Inr (r3, st3)
              \<and> lib_isis_format_id i4 l4 st3 = Inr (r4, st4)
              \<and> lib_isis_format_id i5 l5 st4 = Inr (r5, st5)
              \<longrightarrow> r2 \<noteq> rv \<and> r3 \<noteq> rv \<and> r4 \<noteq> rv
                  \<and> buf_ring st4 ! rv = buf_ring st1 ! rv \<and> ring_ok st4 \<and> r5 = rv))"
proof -
  let ?c = "(cur_buf st + 1) mod FORMAT_BUF_COUNT"
  have c: "?c < FORMAT_BUF_COUNT" by (simp add: FORMAT_BUF_COUNT_def)
  from assms c have lrv: "length (buf_ring st ! ?c) = FORMAT_ID_SIZE" by (rule ring_ok_buffer)
  from assms have len4: "length (buf_ring st) = FORMAT_BUF_COUNT" by (simp add: ring_ok_def)
  have cstr: "NUL \<notin> set t \<Longrightarrow> length t < FORMAT_ID_SIZE \<Longrightarrow>
      c_string (snprintf (buf_ring st ! ?c) 0 FORMAT_ID_SIZE t) = t" for t
    using c_string_snprintf [of FORMAT_ID_SIZE 0 "buf_ring st ! ?c" t]
    by (simp add: FORMAT_ID_SIZE_def)
  have A: "\<exists>st'. lib_isis_format_id None len st = Inr (?c, st')
         \<and> c_string (buf_ring st' ! ?c) = ''unknown''"
    using format_id_null [OF assms, of len] c len4 cstr [of "''unknown''"]
    by (simp add: NUL_def FORMAT_ID_SIZE_def)
  have B: "\<exists>st'. lib_isis_format_id (Some bs) len st = Inr (?c, st')
         \<and> c_string (buf_ring st' ! ?c) = ''Short ID''" if "len < 6"
    using format_id_short [OF assms that, of bs] c len4 cstr [of "''Short ID''"]
    by (simp add: NUL_def FORMAT_ID_SIZE_def)
  have C: "\<exists>st'. lib_isis_format_id (Some bs) len st = Inr (?c, st')
         \<and> c_string (buf_ring st' ! ?c)
               = hex02 (bs ! 0) @ hex02 (bs ! 1) @ ''.'' @ hex02 (bs ! 2) @ hex02 (bs ! 3)
                 @ ''.'' @ hex02 (bs ! 4) @ hex02 (bs ! 5)
                 @ (if 6 < len then ''.'' @ hex02 (bs ! 6) else [])
                 @ (if 7 < len then ''-'' @ hex02 (bs ! 7) else [])"
    if "6 \<le> len" "min len 8 \<le> length bs"
    using format_id_long [OF assms that] long_buffer_text(1) [OF lrv, of bs len] c len4
    by (simp add: six_bytes_text_def)
  have B': "len < 6 \<longrightarrow>
        (\<exists>st'. lib_isis_format_id (Some bs) len st = Inr (?c, st')
           \<and> c_string (buf_ring st' ! ?c) = ''Short ID'')"
    using B by (rule impI)
  have C': "6 \<le> len \<and> min len 8 \<le> length bs \<longrightarrow>
        (\<exists>st'. lib_isis_format_id (Some bs) len st = Inr (?c, st')
           \<and> c_string (buf_ring st' ! ?c)
               = hex02 (bs ! 0) @ hex02 (bs ! 1) @ ''.'' @ hex02 (bs ! 2) @ hex02 (bs ! 3)
                 @ ''.'' @ hex02 (bs ! 4) @ hex02 (bs ! 5)
                 @ (if 6 < len then ''.'' @ hex02 (bs ! 6) else [])
                 @ (if 7 < len then ''-'' @ hex02 (bs ! 7) else []))"
  proof
    assume "6 \<le> len \<and> min len 8 \<le> length bs"
    then have "6 \<le> len" and "min len 8 \<le> length bs" by simp_all
    then show "\<exists>st'. lib_isis_format_id (Some bs) len st = Inr (?c, st')
           \<and> c_string (buf_ring st' ! ?c)
               = hex02 (bs ! 0) @ hex02 (bs ! 1) @ ''.'' @ hex02 (bs ! 2) @ hex02 (bs ! 3)
                 @ ''.'' @ hex02 (bs ! 4) @ hex02 (bs ! 5)
                 @ (if 6 < len then ''.'' @ hex02 (bs ! 6) else [])
                 @ (if 7 < len then ''-'' @ hex02 (bs ! 7) else [])"
      by (rule C)
  qed
  have D': "\<forall>ident rv st1. lib_isis_format_id ident len st = Inr (rv, st1) \<longrightarrow>
        rv = ?c \<and> ring_ok st1
        \<and> (\<forall>k. k \<noteq> rv \<longrightarrow> buf_ring st1 ! k = buf_ring st ! k)
        \<and> (\<forall>i2 l2 r2 st2 i3 l3 r3 st3 i4 l4 r4 st4 i5 l5 r5 st5.
              lib_isis_format_id i2 l2 st1 = Inr (r2, st2)
              \<and> lib_isis_format_id i3 l3 st2 = Inr (r3, st3)
              \<and> lib_isis_format_id i4 l4 st3 = Inr (r4, st4)
              \<and> lib_isis_format_id i5 l5 st4 = Inr (r5, st5)
              \<longrightarrow> r2 \<noteq> rv \<and> r3 \<noteq> rv \<and> r4 \<noteq> rv
                  \<and> buf_ring st4 ! rv = buf_ring st1 ! rv \<and> ring_ok st4 \<and> r5 = rv)"
  proof (intro allI impI)
    fix ident rv st1
    assume call: "lib_isis_format_id ident len st = Inr (rv, st1)"
    from format_id_rotation [OF assms call] have rv: "rv = ?c" and cur: "cur_buf st1 = rv"
      and ok1: "ring_ok st1" and other: "\<forall>k. k \<noteq> rv \<longrightarrow> buf_ring st1 ! k = buf_ring st ! k"
      by simp_all
    from rv c have lt: "rv < FORMAT_BUF_COUNT" by simp
    have later: "\<forall>i2 l2 r2 st2 i3 l3 r3 st3 i4 l4 r4 st4 i5 l5 r5 st5.
              lib_isis_format_id i2 l2 st1 = Inr (r2, st2)
              \<and> lib_isis_format_id i3 l3 st2 = Inr (r3, st3)
              \<and> lib_isis_format_id i4 l4 st3 = Inr (r4, st4)
              \<and> lib_isis_format_id i5 l5 st4 = Inr (r5, st5)
              \<longrightarrow> r2 \<noteq> rv \<and> r3 \<noteq> rv \<and> r4 \<noteq> rv
                  \<and> buf_ring st4 ! rv = buf_ring st1 ! rv \<and> ring_ok st4 \<and> r5 = rv"
    proof (intro allI impI)
      fix i2 l2 r2 st2 i3 l3 r3 st3 i4 l4 r4 st4 i5 l5 r5 st5
      assume "lib_isis_format_id i2 l2 st1 = Inr (r2, st2)
              \<and> lib_isis_format_id i3 l3 st2 = Inr (r3, st3)
              \<and> lib_isis_format_id i4 l4 st3 = Inr (r4, st4)
              \<and> lib_isis_format_id i5 l5 st4 = Inr (r5, st5)"
      then have c2: "lib_isis_format_id i2 l2 st1 = Inr (r2, st2)"
        and c3: "lib_isis_format_id i3 l3 st2 = Inr (r3, st3)"
        and c4: "lib_isis_format_id i4 l4 st3 = Inr (r4, st4)"
        and c5: "lib_isis_format_id i5 l5 st4 = Inr (r5, st5)" by simp_all
      show "r2 \<noteq> rv \<and> r3 \<noteq> rv \<and> r4 \<noteq> rv
                  \<and> buf_ring st4 ! rv = buf_ring st1 ! rv \<and> ring_ok st4 \<and> r5 = rv"
        by (rule four_calls_later [OF ok1 cur lt c2 c3 c4 c5])
    qed
    show "rv = ?c \<and> ring_ok st1
        \<and> (\<forall>k. k \<noteq> rv \<longrightarrow> buf_ring st1 ! k = buf_ring st ! k)
        \<and> (\<forall>i2 l2 r2 st2 i3 l3 r3 st3 i4 l4 r4 st4 i5 l5 r5 st5.
              lib_isis_format_id i2 l2 st1 = Inr (r2, st2)
              \<and> lib_isis_format_id i3 l3 st2 = Inr (r3, st3)
              \<and> lib_isis_format_id i4 l4 st3 = Inr (r4, st4)
              \<and> lib_isis_format_id i5 l5 st4 = Inr (r5, st5)
              \<longrightarrow> r2 \<noteq> rv \<and> r3 \<noteq> rv \<and> r4 \<noteq> rv
                  \<and> buf_ring st4 ! rv = buf_ring st1 ! rv \<and> ring_ok st4 \<and> r5 = rv)"
      by (rule conjI [OF rv conjI [OF ok1 conjI [OF other later]]])
  qed
  show ?thesis
    by (rule conjI [OF A conjI [OF B' conjI [OF C' D']]])
qed

text \<open>
  C10 at an input: the first call of the program, with an identifier of eight bytes,
  returns buffer 1 holding "0102.0304.0506.07-ab".
\<close>

theorem lib_isis_format_id_texts_and_ring_witness:
  "ring_ok format_id_initial
   \<and> (\<exists>st'. lib_isis_format_id (Some [1, 2, 3, 4, 5, 6, 7, 171]) 8 format_id_initial = Inr (1, st')
         \<and> c_string (buf_ring st' ! 1) = ''0102.0304.0506.07-ab'')"
proof -
  have ok: "ring_ok format_id_initial"
    by (simp add: ring_ok_def format_id_initial_def FORMAT_BUF_COUNT_def FORMAT_ID_SIZE_def
        list_all_iff)
  note t = lib_isis_format_id_texts_and_ring
    [OF ok, where len = 8 and bs = "[1, 2, 3, 4, 5, 6, 7, 171]",
     THEN conjunct2, THEN conjunct2, THEN conjunct1]
  have "\<exists>st'. lib_isis_format_id (Some [1, 2, 3, 4, 5, 6, 7, 171]) 8 format_id_initial = Inr (1, st')
         \<and> c_string (buf_ring st' ! 1) = ''0102.0304.0506.07-ab''"
    using t by (simp add: format_id_initial_def FORMAT_BUF_COUNT_def hex02_def hex_digit_def)
  with ok show ?thesis by (rule conjI)
qed

subsection \<open>The descriptor loop returns\<close>

text \<open>
  The loop over the descriptor sub-TLVs is the one place where the link decoder iterates.
  When the buffer holds the scope and eleven bytes more (a pass that starts before the end
  of the scope reads twelve bytes at most), every read succeeds and the decoder returns
  the proceed status.
\<close>

lemma node_descriptors_returns:
  assumes "nlri_node_endp + 11 \<le> length (data s)"
  shows "\<exists>a' s'. node_descriptors rid len nlri_node_endp a s = Inr (a', s')"
  using assms
proof (induction rid len nlri_node_endp a s rule: node_descriptors.induct)
  case (1 rid tlv_length nlri_node_endp a s)
  show ?case
  proof (cases "stream_get_getp s < nlri_node_endp")
    case False
    then show ?thesis by (simp add: node_descriptors.simps)
  next
    case True
    with "1.prems" have "getp s + 12 \<le> length (data s)"
      by (simp add: stream_get_getp_def)
    from node_descriptor_sub_tlv_returns [OF this, of rid tlv_length a]
    obtain a1 s1 where sub: "node_descriptor_sub_tlv rid tlv_length a s = Inr (a1, s1)"
      by blast
    from node_descriptor_sub_tlv_advances [OF sub] "1.prems"
    have "nlri_node_endp + 11 \<le> length (data s1)" by simp
    from "1.IH" [OF True sub refl this]
    obtain a' s' where "node_descriptors rid tlv_length nlri_node_endp a1 s1 = Inr (a', s')"
      by blast
    with True sub show ?thesis by (subst node_descriptors.simps) simp
  qed
qed

lemma link_decode_descriptors_return:
  assumes "getp s + 13 + top_tlv_length s + 11 \<le> length (data s)"
    and "top_tlv_type s = BGP_NLRI_TLV_LOCAL_NODE_DESCRIPTORS
         \<or> top_tlv_type s = BGP_NLRI_TLV_REMOTE_NODE_DESCRIPTORS"
  shows "\<exists>a' s'. bgp_mp_link_decode a s = Inr (BGP_ATTR_PARSE_PROCEED, a', s')"
proof -
  obtain d p where s: "s = \<lparr>data = d, getp = p\<rparr>" by (cases s) simp
  let ?len = "be_nat (take 2 (drop (p + 11) d))"
  let ?a1 = "a\<lparr>ext_hdr_proto_id := d ! p,
               ext_hdr_nlri_identifier := be_nat (take 8 (drop (p + 1) d))\<rparr>"
  let ?s1 = "\<lparr>data = d, getp = p + 13\<rparr>"
  from assms(1) have long: "p + 13 + ?len + 11 \<le> length d"
    by (simp add: s top_tlv_length_def)
  then have ret: "\<exists>a' s'. node_descriptors rid ?len (p + 13 + ?len) ?a1 ?s1 = Inr (a', s')"
    for rid
    by (intro node_descriptors_returns) simp
  from assms(2) show ?thesis
  proof
    assume t: "top_tlv_type s = BGP_NLRI_TLV_LOCAL_NODE_DESCRIPTORS"
    from ret [of Local_node] obtain a' s' where
      "node_descriptors Local_node ?len (p + 13 + ?len) ?a1 ?s1 = Inr (a', s')" by blast
    with long t show ?thesis
      unfolding s bgp_mp_link_decode_def top_tlv_type_def
      by (simp add: stream_eval Let_def add.commute)
  next
    assume t: "top_tlv_type s = BGP_NLRI_TLV_REMOTE_NODE_DESCRIPTORS"
    from ret [of Remote_node] obtain a' s' where
      "node_descriptors Remote_node ?len (p + 13 + ?len) ?a1 ?s1 = Inr (a', s')" by blast
    with long t show ?thesis
      unfolding s bgp_mp_link_decode_def top_tlv_type_def
      by (simp add: stream_eval Let_def add.commute nlri_code_points)
  qed
qed

end
